theory Spec2Isabelle
  imports Main "HOL-Library.Word"
begin

unbundle bit_operations_syntax

section \<open>Machine integers, faults and constants (iohome\_constants.h)\<close>

text \<open>
  The library targets the ESP32 (Arduino core): \<open>uint8_t\<close>, \<open>uint16_t\<close> are 8 and 16 bit
  words, \<open>unsigned long\<close> is a 32 bit word. \<open>size_t\<close> values are only compared and
  used as loop bounds, so they are natural numbers. A fixed C array is a list of that
  length; a pointer argument that may be \<open>nullptr\<close> is an \<open>option\<close>.
\<close>

type_synonym u8 = "8 word"
type_synonym u16 = "16 word"
type_synonym u32 = "32 word"

text \<open>What C leaves undefined and the hardware turns into a crash is a value of the model.\<close>

datatype fault = NullPointerRead | OutOfBoundsRead

definition FRAME_MIN_SIZE :: u8 where "FRAME_MIN_SIZE = 11"
definition FRAME_MAX_SIZE :: nat where "FRAME_MAX_SIZE = 32"
definition FRAME_MAX_DATA_SIZE :: nat where "FRAME_MAX_DATA_SIZE = 21"
definition NODE_ID_SIZE :: nat where "NODE_ID_SIZE = 3"
definition ROLLING_CODE_SIZE :: nat where "ROLLING_CODE_SIZE = 2"
definition HMAC_SIZE :: nat where "HMAC_SIZE = 6"
definition CRC_SIZE :: nat where "CRC_SIZE = 2"
definition CTRL0_PROTOCOL_MASK :: u8 where "CTRL0_PROTOCOL_MASK = 0x20"
definition CTRL0_LENGTH_MASK :: u8 where "CTRL0_LENGTH_MASK = 0x1F"
definition IV_PADDING :: u8 where "IV_PADDING = 0x55"
definition CRC_POLYNOMIAL :: u16 where "CRC_POLYNOMIAL = 0x8408"
definition CRC_INITIAL :: u16 where "CRC_INITIAL = 0x0000"
definition CMD_CHALLENGE_REQUEST :: u8 where "CMD_CHALLENGE_REQUEST = 0x3C"
definition CMD_CHALLENGE_RESPONSE :: u8 where "CMD_CHALLENGE_RESPONSE = 0x3D"
definition MAX_DISCOVERED_DEVICES :: nat where "MAX_DISCOVERED_DEVICES = 32"

definition TRANSFER_KEY :: "u8 list" where
  "TRANSFER_KEY = [0x34, 0xC3, 0x46, 0x6E, 0xD8, 0x8F, 0x4E, 0x8E,
                   0x16, 0xAA, 0x47, 0x39, 0x49, 0x88, 0x43, 0x73]"

text \<open>
  \<open>memcpy(dst + off, src, n)\<close> on arrays held as lists: the first \<open>n\<close> bytes of the
  source replace the bytes \<open>off .. off + n - 1\<close> of the destination. The source is meant
  to hold at least \<open>n\<close> bytes, as C requires of the caller.
\<close>

definition memcpy :: "u8 list \<Rightarrow> nat \<Rightarrow> u8 list \<Rightarrow> nat \<Rightarrow> u8 list" where
  "memcpy dst off src n = take off dst @ take n src @ drop (off + n) dst"

section \<open>CRC-16/KERMIT (iohome\_crypto.cpp)\<close>

text \<open>The inner loop of \<open>compute_crc16_byte\<close>: \<open>n\<close> shift-and-reduce steps.\<close>

fun crc16_shift :: "nat \<Rightarrow> u16 \<Rightarrow> u16" where
  "crc16_shift 0 crc = crc"
| "crc16_shift (Suc n) crc =
     crc16_shift n
       (let remainder = (if crc AND 1 \<noteq> 0 then CRC_POLYNOMIAL else 0)
        in drop_bit 1 crc XOR remainder)"

definition compute_crc16_byte :: "u8 \<Rightarrow> u16 \<Rightarrow> u16" where
  "compute_crc16_byte byte crc = crc16_shift 8 (crc XOR ucast byte)"

fun compute_crc16 :: "u8 list \<Rightarrow> u16 \<Rightarrow> u16" where
  "compute_crc16 [] crc = crc"
| "compute_crc16 (b # bs) crc = compute_crc16 bs (compute_crc16_byte b crc)"

text \<open>The two bytes a CRC value is stored as in a frame: \<open>crc & 0xFF\<close>, then \<open>crc >> 8\<close>.\<close>

definition crc_wire_bytes :: "u16 \<Rightarrow> u8 list" where
  "crc_wire_bytes v = [ucast (v AND 0xFF), ucast (drop_bit 8 v AND 0xFF)]"

definition verify_crc16 :: "u8 list \<Rightarrow> nat \<Rightarrow> bool" where
  "verify_crc16 frame len =
     (if len < CRC_SIZE then False
      else
        let calculated_crc = compute_crc16 (take (len - CRC_SIZE) frame) CRC_INITIAL;
            received_crc = (ucast (frame ! (len - 2)) :: u16) OR push_bit 8 (ucast (frame ! (len - 1)))
        in calculated_crc = received_crc)"

section \<open>The frame and its construction (iohome\_frame.h, iohome\_frame.cpp)\<close>

record IoFrame =
  ctrl_byte_0 :: u8
  ctrl_byte_1 :: u8
  dest_node :: "u8 list"
  src_node :: "u8 list"
  command_id :: u8
  data :: "u8 list"
  data_len :: u8
  rolling_code :: "u8 list"
  hmac :: "u8 list"
  crc :: "u8 list"
  is_1w_mode :: bool
  frame_length :: u8

definition is_2w_mode :: "u8 \<Rightarrow> bool" where
  "is_2w_mode c0 = (c0 AND CTRL0_PROTOCOL_MASK \<noteq> 0)"

definition get_frame_length :: "u8 \<Rightarrow> u8" where
  "get_frame_length c0 = (c0 AND CTRL0_LENGTH_MASK) + FRAME_MIN_SIZE"

text \<open>\<open>memset\<close> to zero, then the mode flag and the 2W bit of control byte 0.\<close>

definition init_frame :: "bool \<Rightarrow> IoFrame" where
  "init_frame is_1w =
     (let frame = \<lparr> ctrl_byte_0 = 0, ctrl_byte_1 = 0,
                     dest_node = replicate NODE_ID_SIZE 0, src_node = replicate NODE_ID_SIZE 0,
                     command_id = 0, data = replicate FRAME_MAX_DATA_SIZE 0, data_len = 0,
                     rolling_code = replicate ROLLING_CODE_SIZE 0, hmac = replicate HMAC_SIZE 0,
                     crc = replicate CRC_SIZE 0, is_1w_mode = is_1w, frame_length = 0 \<rparr>
      in if \<not> is_1w then frame\<lparr>ctrl_byte_0 := ctrl_byte_0 frame OR CTRL0_PROTOCOL_MASK\<rparr>
         else frame)"

definition set_destination :: "IoFrame \<Rightarrow> u8 list \<Rightarrow> IoFrame" where
  "set_destination frame node_id =
     frame\<lparr>dest_node := memcpy (dest_node frame) 0 node_id NODE_ID_SIZE\<rparr>"

definition set_source :: "IoFrame \<Rightarrow> u8 list \<Rightarrow> IoFrame" where
  "set_source frame node_id =
     frame\<lparr>src_node := memcpy (src_node frame) 0 node_id NODE_ID_SIZE\<rparr>"

text \<open>
  The bytes the code counts around the parameters: \<open>9 + 1\<close> for header and command, the
  rolling code in 1W mode, the authentication tag and the CRC.
\<close>

definition frame_overhead :: "bool \<Rightarrow> nat" where
  "frame_overhead is_1w =
     (if is_1w then 9 + 1 + ROLLING_CODE_SIZE + HMAC_SIZE + CRC_SIZE
      else 9 + 1 + HMAC_SIZE + CRC_SIZE)"

text \<open>
  \<open>set_command\<close> returns its success flag and the frame as it leaves it. \<open>params\<close> is
  the pointer argument (\<open>None\<close> for \<open>nullptr\<close>), \<open>params_len\<close> the length argument.
\<close>

definition set_command :: "IoFrame \<Rightarrow> u8 \<Rightarrow> u8 list option \<Rightarrow> nat \<Rightarrow> bool \<times> IoFrame" where
  "set_command frame cmd_id params params_len =
     (if params_len > FRAME_MAX_DATA_SIZE then (False, frame)
      else
        let f1 = frame\<lparr>command_id := cmd_id, data_len := of_nat params_len\<rparr>;
            f2 = (case params of
                    None \<Rightarrow> f1
                  | Some ps \<Rightarrow>
                      if params_len > 0 then f1\<lparr>data := memcpy (data f1) 0 ps params_len\<rparr>
                      else f1);
            total_length = (of_nat (frame_overhead (is_1w_mode f2) + unat (data_len f2)) :: u8);
            f3 = f2\<lparr>frame_length := total_length\<rparr>
        in (True, f3\<lparr>ctrl_byte_0 :=
                      (ctrl_byte_0 f3 AND NOT CTRL0_LENGTH_MASK)
                      OR ((total_length - FRAME_MIN_SIZE) AND CTRL0_LENGTH_MASK)\<rparr>))"

definition set_rolling_code :: "IoFrame \<Rightarrow> u16 \<Rightarrow> IoFrame" where
  "set_rolling_code frame code =
     frame\<lparr>rolling_code := [ucast (code AND 0xFF), ucast (drop_bit 8 code AND 0xFF)]\<rparr>"

text \<open>
  \<open>serialize_frame\<close> gives the bytes it has written to the buffer, in order; the value
  the C function returns is their number, and \<open>None\<close> stands for the return value 0.
\<close>

definition serialize_frame :: "IoFrame \<Rightarrow> nat \<Rightarrow> u8 list option" where
  "serialize_frame frame buffer_size =
     (if buffer_size < unat (frame_length frame) then None
      else Some ([ctrl_byte_0 frame, ctrl_byte_1 frame]
                 @ take NODE_ID_SIZE (dest_node frame)
                 @ take NODE_ID_SIZE (src_node frame)
                 @ [command_id frame]
                 @ take (unat (data_len frame)) (data frame)
                 @ (if is_1w_mode frame then take ROLLING_CODE_SIZE (rolling_code frame) else [])
                 @ take HMAC_SIZE (hmac frame)
                 @ take CRC_SIZE (crc frame)))"

section \<open>Frame parsing\<close>

text \<open>
  Reads of the receive buffer are checked against the memory the buffer really has: a read
  past its end is the fault \<open>OutOfBoundsRead\<close>.
\<close>

definition read_u8 :: "u8 list \<Rightarrow> nat \<Rightarrow> fault + u8" where
  "read_u8 buf i = (if i < length buf then Inr (buf ! i) else Inl OutOfBoundsRead)"

definition read_bytes :: "u8 list \<Rightarrow> nat \<Rightarrow> nat \<Rightarrow> fault + u8 list" where
  "read_bytes buf off n =
     (if off + n \<le> length buf then Inr (take n (drop off buf)) else Inl OutOfBoundsRead)"

definition and_then :: "fault + 'a \<Rightarrow> ('a \<Rightarrow> fault + 'b) \<Rightarrow> fault + 'b" where
  "and_then r k = (case r of Inl e \<Rightarrow> Inl e | Inr v \<Rightarrow> k v)"

text \<open>
  \<open>parse_frame buffer buffer_len\<close>: \<open>Inr (Some frame)\<close> when the C function returns true
  with that frame, \<open>Inr None\<close> when it returns false (the partly filled output frame of a
  failed parse is not kept), \<open>Inl\<close> when it reads outside the buffer.
\<close>

definition parse_frame :: "u8 list \<Rightarrow> nat \<Rightarrow> fault + IoFrame option" where
  "parse_frame buffer buffer_len =
     (if buffer_len < unat FRAME_MIN_SIZE then Inr None
      else
        and_then (read_u8 buffer 0) (\<lambda>c0.
        and_then (read_u8 buffer 1) (\<lambda>c1.
        let is_1w = \<not> is_2w_mode c0;
            flen = get_frame_length c0
        in if buffer_len < unat flen then Inr None
           else
             and_then (read_bytes buffer 2 NODE_ID_SIZE) (\<lambda>dest.
             and_then (read_bytes buffer 5 NODE_ID_SIZE) (\<lambda>src.
             and_then (read_u8 buffer 8) (\<lambda>cmd.
             let dlen = flen - of_nat (frame_overhead is_1w)
             in if unat dlen > FRAME_MAX_DATA_SIZE then Inr None
                else
                  and_then (read_bytes buffer 9 (unat dlen)) (\<lambda>params.
                  and_then (if is_1w then read_bytes buffer (9 + unat dlen) ROLLING_CODE_SIZE
                            else Inr (replicate ROLLING_CODE_SIZE 0)) (\<lambda>rc.
                  let off = 9 + unat dlen + (if is_1w then ROLLING_CODE_SIZE else 0)
                  in and_then (read_bytes buffer off HMAC_SIZE) (\<lambda>tag.
                     and_then (read_bytes buffer (off + HMAC_SIZE) CRC_SIZE) (\<lambda>c.
                     Inr (Some \<lparr> ctrl_byte_0 = c0, ctrl_byte_1 = c1,
                                  dest_node = dest, src_node = src, command_id = cmd,
                                  data = memcpy (replicate FRAME_MAX_DATA_SIZE 0) 0 params (unat dlen),
                                  data_len = dlen, rolling_code = rc, hmac = tag, crc = c,
                                  is_1w_mode = is_1w, frame_length = flen \<rparr>)))))))))))"

section \<open>AES-128 block encryption\<close>

text \<open>
  Modelled from the spec: the AES-128-ECB encryption of one 16-byte block, which the code
  takes from mbedTLS (\<open>mbedtls_aes_setkey_enc\<close>, \<open>mbedtls_aes_crypt_ecb\<close>); the library
  is not part of the repository. The specification asks for "standard NIST AES with a
  128-bit key encrypting a single 16-byte block", which is the cipher of FIPS-197 below:
  the state is the 16 bytes in input order (column after column).
\<close>

definition aes_sbox :: "u8 list" where
  "aes_sbox = [
   0x63, 0x7C, 0x77, 0x7B, 0xF2, 0x6B, 0x6F, 0xC5, 0x30, 0x01, 0x67, 0x2B, 0xFE, 0xD7, 0xAB, 0x76,
   0xCA, 0x82, 0xC9, 0x7D, 0xFA, 0x59, 0x47, 0xF0, 0xAD, 0xD4, 0xA2, 0xAF, 0x9C, 0xA4, 0x72, 0xC0,
   0xB7, 0xFD, 0x93, 0x26, 0x36, 0x3F, 0xF7, 0xCC, 0x34, 0xA5, 0xE5, 0xF1, 0x71, 0xD8, 0x31, 0x15,
   0x04, 0xC7, 0x23, 0xC3, 0x18, 0x96, 0x05, 0x9A, 0x07, 0x12, 0x80, 0xE2, 0xEB, 0x27, 0xB2, 0x75,
   0x09, 0x83, 0x2C, 0x1A, 0x1B, 0x6E, 0x5A, 0xA0, 0x52, 0x3B, 0xD6, 0xB3, 0x29, 0xE3, 0x2F, 0x84,
   0x53, 0xD1, 0x00, 0xED, 0x20, 0xFC, 0xB1, 0x5B, 0x6A, 0xCB, 0xBE, 0x39, 0x4A, 0x4C, 0x58, 0xCF,
   0xD0, 0xEF, 0xAA, 0xFB, 0x43, 0x4D, 0x33, 0x85, 0x45, 0xF9, 0x02, 0x7F, 0x50, 0x3C, 0x9F, 0xA8,
   0x51, 0xA3, 0x40, 0x8F, 0x92, 0x9D, 0x38, 0xF5, 0xBC, 0xB6, 0xDA, 0x21, 0x10, 0xFF, 0xF3, 0xD2,
   0xCD, 0x0C, 0x13, 0xEC, 0x5F, 0x97, 0x44, 0x17, 0xC4, 0xA7, 0x7E, 0x3D, 0x64, 0x5D, 0x19, 0x73,
   0x60, 0x81, 0x4F, 0xDC, 0x22, 0x2A, 0x90, 0x88, 0x46, 0xEE, 0xB8, 0x14, 0xDE, 0x5E, 0x0B, 0xDB,
   0xE0, 0x32, 0x3A, 0x0A, 0x49, 0x06, 0x24, 0x5C, 0xC2, 0xD3, 0xAC, 0x62, 0x91, 0x95, 0xE4, 0x79,
   0xE7, 0xC8, 0x37, 0x6D, 0x8D, 0xD5, 0x4E, 0xA9, 0x6C, 0x56, 0xF4, 0xEA, 0x65, 0x7A, 0xAE, 0x08,
   0xBA, 0x78, 0x25, 0x2E, 0x1C, 0xA6, 0xB4, 0xC6, 0xE8, 0xDD, 0x74, 0x1F, 0x4B, 0xBD, 0x8B, 0x8A,
   0x70, 0x3E, 0xB5, 0x66, 0x48, 0x03, 0xF6, 0x0E, 0x61, 0x35, 0x57, 0xB9, 0x86, 0xC1, 0x1D, 0x9E,
   0xE1, 0xF8, 0x98, 0x11, 0x69, 0xD9, 0x8E, 0x94, 0x9B, 0x1E, 0x87, 0xE9, 0xCE, 0x55, 0x28, 0xDF,
   0x8C, 0xA1, 0x89, 0x0D, 0xBF, 0xE6, 0x42, 0x68, 0x41, 0x99, 0x2D, 0x0F, 0xB0, 0x54, 0xBB, 0x16]"

definition sub_byte :: "u8 \<Rightarrow> u8" where
  "sub_byte b = aes_sbox ! unat b"

definition xtime :: "u8 \<Rightarrow> u8" where
  "xtime b = push_bit 1 b XOR (if b AND 0x80 = 0 then 0 else 0x1B)"

definition xor_bytes :: "u8 list \<Rightarrow> u8 list \<Rightarrow> u8 list" where
  "xor_bytes xs ys = map2 (XOR) xs ys"

fun mix_columns :: "u8 list \<Rightarrow> u8 list" where
  "mix_columns (a0 # a1 # a2 # a3 # rest) =
     (xtime a0 XOR (xtime a1 XOR a1) XOR a2 XOR a3) #
     (a0 XOR xtime a1 XOR (xtime a2 XOR a2) XOR a3) #
     (a0 XOR a1 XOR xtime a2 XOR (xtime a3 XOR a3)) #
     ((xtime a0 XOR a0) XOR a1 XOR a2 XOR xtime a3) # mix_columns rest"
| "mix_columns xs = xs"

definition shift_rows :: "u8 list \<Rightarrow> u8 list" where
  "shift_rows s = map (\<lambda>i. s ! i) [0, 5, 10, 15, 4, 9, 14, 3, 8, 13, 2, 7, 12, 1, 6, 11]"

text \<open>
  The key schedule, one round key from the previous one: the first word is the old first
  word XOR the substituted, rotated last word with the round constant; each further word
  is the old word XOR the word just produced (the last four bytes of \<open>acc\<close>).
\<close>

fun key_chain :: "u8 list \<Rightarrow> u8 list \<Rightarrow> u8 list" where
  "key_chain acc (k0 # k1 # k2 # k3 # ks) =
     key_chain (acc @ xor_bytes [k0, k1, k2, k3] (drop (length acc - 4) acc)) ks"
| "key_chain acc ks = acc"

definition next_round_key :: "u8 list \<Rightarrow> u8 \<Rightarrow> u8 list" where
  "next_round_key rk rc =
     key_chain
       (xor_bytes (take 4 rk)
          [sub_byte (rk ! 13) XOR rc, sub_byte (rk ! 14), sub_byte (rk ! 15), sub_byte (rk ! 12)])
       (drop 4 rk)"

text \<open>One round with its round key; the last round has no MixColumns.\<close>

definition aes_round :: "bool \<Rightarrow> u8 list \<Rightarrow> u8 list \<Rightarrow> u8 list" where
  "aes_round final st rk =
     xor_bytes (if final then shift_rows (map sub_byte st)
                else mix_columns (shift_rows (map sub_byte st))) rk"

text \<open>\<open>aes_rounds n st rk rc\<close>: the last \<open>n\<close> rounds, \<open>rk\<close> the key of the next round to
  run and \<open>rc\<close> the round constant of the key after it.\<close>

fun aes_rounds :: "nat \<Rightarrow> u8 list \<Rightarrow> u8 list \<Rightarrow> u8 \<Rightarrow> u8 list" where
  "aes_rounds 0 st rk rc = st"
| "aes_rounds (Suc n) st rk rc =
     aes_rounds n (aes_round (n = 0) st rk) (next_round_key rk rc) (xtime rc)"

definition aes128_block :: "u8 list \<Rightarrow> u8 list \<Rightarrow> u8 list" where
  "aes128_block key input = aes_rounds 10 (xor_bytes input key) (next_round_key key 1) 2"

text \<open>
  \<open>aes128_encrypt input key\<close> of iohome\_crypto.cpp: \<open>None\<close> is its return value false.
  With a 128 bit key both mbedTLS calls return 0, so the call succeeds.
\<close>

definition aes128_encrypt :: "u8 list \<Rightarrow> u8 list \<Rightarrow> u8 list option" where
  "aes128_encrypt input key = Some (aes128_block key input)"

section \<open>Checksum, initial value and authentication tag (iohome\_crypto.cpp)\<close>

definition compute_checksum :: "u8 \<Rightarrow> u8 \<times> u8 \<Rightarrow> u8 \<times> u8" where
  "compute_checksum frame_byte cs =
     (case cs of (chksum1, chksum2) \<Rightarrow>
        let tmpchksum = frame_byte XOR chksum2;
            c2 = push_bit 1 (chksum1 AND 0x7F) AND 0xFF
        in if chksum1 AND 0x80 = 0
           then (let c2a = (if tmpchksum \<ge> 128 then c2 OR 1 else c2)
                 in (c2a, push_bit 1 tmpchksum AND 0xFF))
           else (let c2b = (if tmpchksum \<ge> 128 then c2 OR 1 else c2)
                 in (c2b XOR 0x55, (push_bit 1 tmpchksum XOR 0x5B) AND 0xFF)))"

fun checksum_loop :: "u8 list \<Rightarrow> u8 \<times> u8 \<Rightarrow> u8 \<times> u8" where
  "checksum_loop [] cs = cs"
| "checksum_loop (b # bs) cs = checksum_loop bs (compute_checksum b cs)"

text \<open>
  Bytes 0 to 9 of the initial value, the same in both modes: the first 8 bytes of the frame
  data padded with 0x55, then the two checksums over all of the frame data. The frame data
  is the list of the \<open>data_len\<close> bytes the pointer argument stands for.
\<close>

definition iv_prefix :: "u8 list \<Rightarrow> u8 list" where
  "iv_prefix frame_data =
     (case checksum_loop frame_data (0, 0) of (chksum1, chksum2) \<Rightarrow>
        take 8 frame_data @ replicate (8 - length frame_data) IV_PADDING @ [chksum1, chksum2])"

definition construct_iv_1w :: "u8 list \<Rightarrow> u8 list \<Rightarrow> u8 list" where
  "construct_iv_1w frame_data sequence_number =
     iv_prefix frame_data @ [sequence_number ! 0, sequence_number ! 1] @ replicate 4 IV_PADDING"

text \<open>The challenge is read through the pointer without a check: \<open>nullptr\<close> faults.\<close>

definition construct_iv_2w :: "u8 list \<Rightarrow> u8 list option \<Rightarrow> fault + u8 list" where
  "construct_iv_2w frame_data challenge =
     (case challenge of
        None \<Rightarrow> Inl NullPointerRead
      | Some ch \<Rightarrow> Inr (iv_prefix frame_data @ take HMAC_SIZE ch))"

definition create_1w_hmac :: "u8 list \<Rightarrow> u8 list \<Rightarrow> u8 list \<Rightarrow> u8 list option" where
  "create_1w_hmac frame_data sequence_number system_key =
     (case aes128_encrypt (construct_iv_1w frame_data sequence_number) system_key of
        None \<Rightarrow> None
      | Some encrypted_iv \<Rightarrow> Some (take HMAC_SIZE encrypted_iv))"

definition create_2w_hmac :: "u8 list \<Rightarrow> u8 list option \<Rightarrow> u8 list \<Rightarrow> fault + u8 list option" where
  "create_2w_hmac frame_data challenge system_key =
     (case construct_iv_2w frame_data challenge of
        Inl e \<Rightarrow> Inl e
      | Inr iv \<Rightarrow>
          (case aes128_encrypt iv system_key of
             None \<Rightarrow> Inr None
           | Some encrypted_iv \<Rightarrow> Inr (Some (take HMAC_SIZE encrypted_iv))))"

text \<open>The comparison loop of \<open>verify_hmac\<close>: the OR of the bytewise XORs.\<close>

definition hmac_diff :: "u8 list \<Rightarrow> u8 list \<Rightarrow> u8" where
  "hmac_diff calculated received =
     foldl (\<lambda>diff i. diff OR (calculated ! i XOR received ! i)) 0 [0 ..< HMAC_SIZE]"

definition verify_hmac :: "u8 list \<Rightarrow> u8 list \<Rightarrow> u8 list option \<Rightarrow> u8 list \<Rightarrow> bool \<Rightarrow> fault + bool" where
  "verify_hmac frame_data received_hmac sequence_or_challenge system_key is_2w =
     and_then
       (if is_2w then create_2w_hmac frame_data sequence_or_challenge system_key
        else (case sequence_or_challenge of
                None \<Rightarrow> Inl NullPointerRead
              | Some sequence_number \<Rightarrow> Inr (create_1w_hmac frame_data sequence_number system_key)))
       (\<lambda>r. case r of
               None \<Rightarrow> Inr False
             | Some calculated_hmac \<Rightarrow> Inr (hmac_diff calculated_hmac received_hmac = 0))"

text \<open>The key-transfer envelope of 1W pairing; \<open>None\<close> is the return value false.\<close>

definition encrypt_1w_key :: "u8 list \<Rightarrow> u8 list \<Rightarrow> u8 list option" where
  "encrypt_1w_key system_key node_address =
     (let iv = map (\<lambda>i. node_address ! (i mod NODE_ID_SIZE)) [0 ..< 16]
      in case aes128_encrypt iv TRANSFER_KEY of
           None \<Rightarrow> None
         | Some encrypted_iv \<Rightarrow> Some (map (\<lambda>i. system_key ! i XOR encrypted_iv ! i) [0 ..< 16]))"

section \<open>Finalizing and validating a frame (iohome\_frame.cpp)\<close>

definition frame_data_of :: "IoFrame \<Rightarrow> u8 list" where
  "frame_data_of frame = command_id frame # take (unat (data_len frame)) (data frame)"

definition finalize_frame :: "IoFrame \<Rightarrow> u8 list \<Rightarrow> u8 list option \<Rightarrow> fault + bool \<times> IoFrame" where
  "finalize_frame frame system_key challenge =
     and_then
       (if is_1w_mode frame
        then Inr (create_1w_hmac (frame_data_of frame) (rolling_code frame) system_key)
        else (case challenge of
                None \<Rightarrow> Inr None
              | Some ch \<Rightarrow> create_2w_hmac (frame_data_of frame) challenge system_key))
       (\<lambda>r. case r of
               None \<Rightarrow> Inr (False, frame)
             | Some tag \<Rightarrow>
                 let f1 = frame\<lparr>hmac := tag\<rparr>
                 in (case serialize_frame f1 FRAME_MAX_SIZE of
                       None \<Rightarrow> Inr (False, f1)
                     | Some temp_buffer \<Rightarrow>
                         let crc_len = length temp_buffer;
                             crc_value = compute_crc16 (take (crc_len - CRC_SIZE) temp_buffer) CRC_INITIAL
                         in Inr (True, f1\<lparr>crc := crc_wire_bytes crc_value\<rparr>)))"

text \<open>
  \<open>validate_frame frame system_key challenge\<close>: both pointer arguments default to
  \<open>nullptr\<close>. In 2W mode the caller's challenge pointer goes to \<open>verify_hmac\<close> as it is.
\<close>

definition validate_frame :: "IoFrame \<Rightarrow> u8 list option \<Rightarrow> u8 list option \<Rightarrow> fault + bool" where
  "validate_frame frame system_key challenge =
     (case serialize_frame frame FRAME_MAX_SIZE of
        None \<Rightarrow> Inr False
      | Some temp_buffer \<Rightarrow>
          if \<not> verify_crc16 temp_buffer (length temp_buffer) then Inr False
          else (case system_key of
                  None \<Rightarrow> Inr True
                | Some key \<Rightarrow>
                    let seq_or_challenge =
                          (if is_1w_mode frame then Some (rolling_code frame) else challenge)
                    in verify_hmac (frame_data_of frame) (hmac frame) seq_or_challenge key
                         (\<not> is_1w_mode frame)))"

section \<open>The controller's receive path (IoHomeControl.h, IoHomeControl.cpp)\<close>

text \<open>
  The members of \<open>IoHomeControl\<close> that the protocol code reads or writes. The only
  rolling code the class holds is \<open>rolling_code_\<close>, the counter of its own transmissions.
\<close>

record IoHomeControl =
  ctl_own_node_id :: "u8 list"
  ctl_system_key :: "u8 list"
  ctl_is_1w_mode :: bool
  ctl_rolling_code :: u16
  ctl_initialized :: bool
  ctl_receiving :: bool

text \<open>
  What the radio answers during one call of \<open>check_received\<close>: whether \<open>scanChannel\<close>
  reports a preamble, the receive buffer as \<open>readData\<close> leaves it, and the value
  \<open>readData\<close> returns, which the code takes for the length.
\<close>

record radio_rx =
  preamble_detected :: bool
  rx_buffer :: "u8 list"
  rx_len :: int

text \<open>
  \<open>check_received\<close> returns its verdict, the frame it delivers to the caller and the
  callback when the verdict is true, and the controller as it leaves it.
\<close>

definition check_received :: "IoHomeControl \<Rightarrow> radio_rx \<Rightarrow> fault + bool \<times> IoFrame option \<times> IoHomeControl" where
  "check_received ctl rx =
     (if \<not> ctl_receiving ctl then Inr (False, None, ctl)
      else if \<not> preamble_detected rx then Inr (False, None, ctl)
      else if rx_len rx < 0 then Inr (False, None, ctl)
      else
        and_then (parse_frame (rx_buffer rx) (nat (rx_len rx))) (\<lambda>parsed.
          case parsed of
            None \<Rightarrow> Inr (False, None, ctl)
          | Some frame \<Rightarrow>
              and_then (validate_frame frame (Some (ctl_system_key ctl)) None) (\<lambda>valid.
                if \<not> valid then Inr (False, None, ctl)
                else Inr (True, Some frame, ctl))))"

section \<open>Frequency hopping (iohome\_2w.h, iohome\_2w.cpp)\<close>

datatype ChannelState = CHANNEL_1 | CHANNEL_2 | CHANNEL_3

record ChannelHopper =
  current_channel :: ChannelState
  last_hop_time_ms :: u32
  hop_interval_us :: u32
  enabled :: bool

text \<open>The constructor: channel 2, dwell 2700 microseconds, hopping disabled.\<close>

definition ChannelHopper_new :: ChannelHopper where
  "ChannelHopper_new =
     \<lparr> current_channel = CHANNEL_2, last_hop_time_ms = 0, hop_interval_us = 2700, enabled = False \<rparr>"

definition set_enabled :: "bool \<Rightarrow> ChannelHopper \<Rightarrow> ChannelHopper" where
  "set_enabled e h = h\<lparr>enabled := e\<rparr>"

definition next_channel :: "ChannelHopper \<Rightarrow> ChannelHopper" where
  "next_channel h =
     (case current_channel h of
        CHANNEL_1 \<Rightarrow> h\<lparr>current_channel := CHANNEL_2\<rparr>
      | CHANNEL_2 \<Rightarrow> h\<lparr>current_channel := CHANNEL_3\<rparr>
      | CHANNEL_3 \<Rightarrow> h\<lparr>current_channel := CHANNEL_1\<rparr>)"

text \<open>
  \<open>update\<close> takes the current time in milliseconds, as its parameter
  \<open>current_time_ms\<close> says, and multiplies by 1000 in \<open>unsigned long\<close> arithmetic.
\<close>

definition update :: "u32 \<Rightarrow> ChannelHopper \<Rightarrow> bool \<times> ChannelHopper" where
  "update current_time_ms h =
     (if \<not> enabled h then (False, h)
      else
        let current_time_us = current_time_ms * 1000;
            last_hop_time_us = last_hop_time_ms h * 1000;
            elapsed_us = current_time_us - last_hop_time_us
        in if elapsed_us \<ge> hop_interval_us h
           then (True, (next_channel h)\<lparr>last_hop_time_ms := current_time_ms\<rparr>)
           else (False, h))"

section \<open>Challenge-response authentication (iohome\_2w.h, iohome\_2w.cpp)\<close>

datatype ChallengeState = IDLE | CHALLENGE_SENT | AUTHENTICATED

record AuthenticationManager =
  auth_system_key :: "u8 list"
  current_challenge :: "u8 list"
  auth_state :: ChallengeState
  challenge_timestamp :: u32
  challenge_timeout_ms :: u32

definition AuthenticationManager_new :: AuthenticationManager where
  "AuthenticationManager_new =
     \<lparr> auth_system_key = replicate 16 0, current_challenge = replicate HMAC_SIZE 0,
       auth_state = ChallengeState.IDLE, challenge_timestamp = 0, challenge_timeout_ms = 5000 \<rparr>"

definition auth_begin :: "u8 list \<Rightarrow> AuthenticationManager \<Rightarrow> AuthenticationManager" where
  "auth_begin system_key mgr =
     mgr\<lparr>auth_system_key := memcpy (auth_system_key mgr) 0 system_key 16,
         auth_state := ChallengeState.IDLE\<rparr>"

text \<open>
  \<open>generate_challenge\<close>: the six values of \<open>RANDOM_BYTE()\<close> and the reading of
  \<open>GET_TIME_MS()\<close> are inputs. It returns the challenge written to \<open>challenge_out\<close>.
\<close>

definition generate_challenge :: "u8 list \<Rightarrow> u32 \<Rightarrow> AuthenticationManager \<Rightarrow> u8 list \<times> AuthenticationManager" where
  "generate_challenge random_bytes now mgr =
     (let challenge_out = take HMAC_SIZE random_bytes
      in (challenge_out,
          mgr\<lparr>current_challenge := memcpy (current_challenge mgr) 0 challenge_out HMAC_SIZE,
              challenge_timestamp := now,
              auth_state := CHALLENGE_SENT\<rparr>))"

text \<open>\<open>verify_challenge_response\<close>; \<open>now\<close> is the reading of \<open>GET_TIME_MS()\<close>.\<close>

definition verify_challenge_response :: "u32 \<Rightarrow> IoFrame \<Rightarrow> AuthenticationManager \<Rightarrow> fault + bool \<times> AuthenticationManager" where
  "verify_challenge_response now frame mgr =
     (if auth_state mgr \<noteq> CHALLENGE_SENT then Inr (False, mgr)
      else if now - challenge_timestamp mgr > challenge_timeout_ms mgr
        then Inr (False, mgr\<lparr>auth_state := ChallengeState.IDLE\<rparr>)
      else if command_id frame \<noteq> CMD_CHALLENGE_RESPONSE then Inr (False, mgr)
      else
        and_then (validate_frame frame (Some (auth_system_key mgr)) (Some (current_challenge mgr)))
          (\<lambda>valid. if \<not> valid then Inr (False, mgr)
                    else Inr (True, mgr\<lparr>auth_state := AUTHENTICATED\<rparr>)))"

definition auth_reset :: "AuthenticationManager \<Rightarrow> AuthenticationManager" where
  "auth_reset mgr =
     mgr\<lparr>auth_state := ChallengeState.IDLE, current_challenge := replicate HMAC_SIZE 0,
         challenge_timestamp := 0\<rparr>"

text \<open>The managers a program can have: the constructor's, and what the methods make of one.\<close>

inductive auth_reachable :: "AuthenticationManager \<Rightarrow> bool" where
  reach_new: "auth_reachable AuthenticationManager_new"
| reach_begin: "auth_reachable mgr \<Longrightarrow> auth_reachable (auth_begin system_key mgr)"
| reach_generate: "auth_reachable mgr \<Longrightarrow> auth_reachable (snd (generate_challenge random_bytes now mgr))"
| reach_verify: "auth_reachable mgr \<Longrightarrow> verify_challenge_response now frame mgr = Inr (ok, mgr')
                 \<Longrightarrow> auth_reachable mgr'"
| reach_reset: "auth_reachable mgr \<Longrightarrow> auth_reachable (auth_reset mgr)"

section \<open>Device discovery (iohome\_2w.h, iohome\_2w.cpp)\<close>

datatype DiscoveryState = IDLE | DISCOVERING | FOUND

record DiscoveredDevice =
  node_id :: "u8 list"
  device_type :: u8
  manufacturer :: u8
  protocol_version :: u8
  rssi :: "16 word"
  timestamp_ms :: u32

record DiscoveryManager =
  disc_own_node_id :: "u8 list"
  disc_state :: DiscoveryState
  discovery_start_time :: u32
  discovery_timeout :: u32
  discovery_device_type :: u8
  discovered_devices :: "DiscoveredDevice list"
  discovered_count :: nat

definition zero_device :: DiscoveredDevice where
  "zero_device = \<lparr> node_id = replicate NODE_ID_SIZE 0, device_type = 0, manufacturer = 0,
                   protocol_version = 0, rssi = 0, timestamp_ms = 0 \<rparr>"

definition DiscoveryManager_new :: DiscoveryManager where
  "DiscoveryManager_new =
     \<lparr> disc_own_node_id = replicate NODE_ID_SIZE 0, disc_state = DiscoveryState.IDLE,
       discovery_start_time = 0, discovery_timeout = 0, discovery_device_type = 0xFF,
       discovered_devices = replicate MAX_DISCOVERED_DEVICES zero_device, discovered_count = 0 \<rparr>"

definition start_discovery :: "u8 \<Rightarrow> u32 \<Rightarrow> u32 \<Rightarrow> DiscoveryManager \<Rightarrow> DiscoveryManager" where
  "start_discovery dev_type timeout_ms now dm =
     dm\<lparr>disc_state := DISCOVERING, discovery_start_time := now, discovery_timeout := timeout_ms,
        discovery_device_type := dev_type, discovered_count := 0\<rparr>"

text \<open>The duplicate check: the loop over the first \<open>discovered_count\<close> entries.\<close>

fun already_listed :: "DiscoveredDevice list \<Rightarrow> u8 list \<Rightarrow> bool" where
  "already_listed [] src = False"
| "already_listed (d # ds) src =
     (if take NODE_ID_SIZE (node_id d) = take NODE_ID_SIZE src then True else already_listed ds src)"

definition process_discovery_response :: "u32 \<Rightarrow> IoFrame \<Rightarrow> 16 word \<Rightarrow> DiscoveryManager \<Rightarrow> bool \<times> DiscoveryManager" where
  "process_discovery_response now frame rssi_val dm =
     (if disc_state dm \<noteq> DISCOVERING then (False, dm)
      else if discovered_count dm \<ge> MAX_DISCOVERED_DEVICES then (False, dm)
      else if already_listed (take (discovered_count dm) (discovered_devices dm)) (src_node frame)
        then (False, dm)
      else
        let device =
              \<lparr> node_id = take NODE_ID_SIZE (src_node frame),
                device_type = (if data_len frame \<ge> 2 then data frame ! 0 else 0),
                manufacturer = (if data_len frame \<ge> 2 then data frame ! 1 else 0),
                protocol_version = (if data_len frame \<ge> 3 then data frame ! 2 else 0),
                rssi = rssi_val, timestamp_ms = now \<rparr>
        in (True, dm\<lparr>discovered_devices := (discovered_devices dm)[discovered_count dm := device],
                     discovered_count := discovered_count dm + 1,
                     disc_state := FOUND\<rparr>))"

text \<open>The devices a caller can read with \<open>get_discovered_device\<close>: the indices below the count.\<close>

definition discovered_list :: "DiscoveryManager \<Rightarrow> DiscoveredDevice list" where
  "discovered_list dm = take (discovered_count dm) (discovered_devices dm)"

text \<open>A discovery session: the responses handed to \<open>process_discovery_response\<close> one after
  the other, each with its clock reading and RSSI.\<close>

fun ingest_all :: "(u32 \<times> IoFrame \<times> 16 word) list \<Rightarrow> DiscoveryManager \<Rightarrow> DiscoveryManager" where
  "ingest_all [] dm = dm"
| "ingest_all ((now, frame, rssi_val) # rest) dm =
     ingest_all rest (snd (process_discovery_response now frame rssi_val dm))"

section \<open>Derived descriptions used by the theorems\<close>

text \<open>
  The frame \<open>parse_frame\<close> fills in from a buffer that passes its checks, field by field at
  the offsets the parser computes (see \<open>parse_frame_eq\<close> below).
\<close>

definition parsed_frame :: "u8 list \<Rightarrow> IoFrame" where
  "parsed_frame buffer =
     (let c0 = buffer ! 0;
          is_1w = \<not> is_2w_mode c0;
          flen = get_frame_length c0;
          dlen = flen - of_nat (frame_overhead is_1w);
          off = 9 + unat dlen + (if is_1w then 2 else 0)
      in \<lparr> ctrl_byte_0 = c0, ctrl_byte_1 = buffer ! 1,
           dest_node = take 3 (drop 2 buffer), src_node = take 3 (drop 5 buffer),
           command_id = buffer ! 8,
           data = take (unat dlen) (drop 9 buffer) @ replicate (21 - unat dlen) 0,
           data_len = dlen,
           rolling_code = (if is_1w then take 2 (drop (9 + unat dlen) buffer) else [0, 0]),
           hmac = take 6 (drop off buffer), crc = take 2 (drop (off + 6) buffer),
           is_1w_mode = is_1w, frame_length = flen \<rparr>)"

text \<open>
  The construction sequence of \<open>IoHomeControl::send_command\<close> and of
  \<open>AuthenticationManager::create_challenge_response\<close>: \<open>init_frame\<close>,
  \<open>set_destination\<close>, \<open>set_source\<close>, \<open>set_command\<close>, in 1W mode
  \<open>set_rolling_code\<close>, then \<open>finalize_frame\<close>.
\<close>

definition build_frame ::
  "bool \<Rightarrow> u8 list \<Rightarrow> u8 list \<Rightarrow> u8 \<Rightarrow> u8 list option \<Rightarrow> nat \<Rightarrow> u16 \<Rightarrow> u8 list \<Rightarrow> u8 list option
   \<Rightarrow> fault + bool \<times> IoFrame" where
  "build_frame is_1w dest src cmd_id params params_len code system_key challenge =
     (let f0 = init_frame is_1w;
          f1 = set_destination f0 dest;
          f2 = set_source f1 src;
          r = set_command f2 cmd_id params params_len
      in if \<not> fst r then Inr (False, snd r)
         else finalize_frame (if is_1w then set_rolling_code (snd r) code else snd r)
                system_key challenge)"

section \<open>Scenario data\<close>

text \<open>
  Scenario S2 of the specification: system key 00 01 .. 0F, a 1W frame to 64 65 75 from
  AB CD EF with command 0x60, parameters 32 00 and rolling code 0x0007; the frame as
  \<open>finalize_frame\<close> leaves it, its serialization, and the serialization in a receive
  buffer of \<open>FRAME_MAX_SIZE\<close> bytes.
\<close>

definition s2_key :: "u8 list" where
  "s2_key = [0x00, 0x01, 0x02, 0x03, 0x04, 0x05, 0x06, 0x07,
             0x08, 0x09, 0x0A, 0x0B, 0x0C, 0x0D, 0x0E, 0x0F]"

definition s2_frame :: IoFrame where
  "s2_frame =
     \<lparr> ctrl_byte_0 = 0x0B, ctrl_byte_1 = 0x00, dest_node = [0x64, 0x65, 0x75],
       src_node = [0xAB, 0xCD, 0xEF], command_id = 0x60,
       data = [0x32, 0, 0, 0, 0, 0, 0, 0, 0, 0, 0, 0, 0, 0, 0, 0, 0, 0, 0, 0, 0],
       data_len = 2, rolling_code = [0x07, 0x00],
       hmac = [0x82, 0x93, 0x4F, 0x7D, 0x4A, 0xFE], crc = [0x00, 0x51],
       is_1w_mode = True, frame_length = 22 \<rparr>"

definition s2_bytes :: "u8 list" where
  "s2_bytes = [0x0B, 0x00, 0x64, 0x65, 0x75, 0xAB, 0xCD, 0xEF, 0x60, 0x32, 0x00, 0x07, 0x00,
               0x82, 0x93, 0x4F, 0x7D, 0x4A, 0xFE, 0x00, 0x51]"

definition s2_rx_buffer :: "u8 list" where
  "s2_rx_buffer = s2_bytes @ replicate 11 0"


text \<open>
  Scenario S4: the challenge 11 22 33 44 55 66 and the 2W response frame (command 0x3D) that
  \<open>create_challenge_response\<close> builds for it under the key of S2, with its serialization.
\<close>

definition s4_challenge :: "u8 list" where
  "s4_challenge = [0x11, 0x22, 0x33, 0x44, 0x55, 0x66]"

definition s4_frame :: IoFrame where
  "s4_frame =
     \<lparr> ctrl_byte_0 = 0x2D, ctrl_byte_1 = 0x00, dest_node = [0x64, 0x65, 0x75],
       src_node = [0xAB, 0xCD, 0xEF], command_id = 0x3D,
       data = [0x11, 0x22, 0x33, 0x44, 0x55, 0x66, 0, 0, 0, 0, 0, 0, 0, 0, 0, 0, 0, 0, 0, 0, 0],
       data_len = 6, rolling_code = [0x00, 0x00],
       hmac = [0x07, 0xBD, 0x2E, 0xE9, 0xAC, 0x1F], crc = [0xA1, 0xB2],
       is_1w_mode = False, frame_length = 24 \<rparr>"

definition s4_bytes :: "u8 list" where
  "s4_bytes = [0x2D, 0x00, 0x64, 0x65, 0x75, 0xAB, 0xCD, 0xEF, 0x3D,
               0x11, 0x22, 0x33, 0x44, 0x55, 0x66,
               0x07, 0xBD, 0x2E, 0xE9, 0xAC, 0x1F, 0xA1, 0xB2]"

text \<open>A controller in 1W mode that is receiving, and the radio delivering the frame of S2.\<close>

definition s3_controller :: IoHomeControl where
  "s3_controller =
     \<lparr> ctl_own_node_id = [0x64, 0x65, 0x75], ctl_system_key = s2_key, ctl_is_1w_mode = True,
       ctl_rolling_code = 0, ctl_initialized = True, ctl_receiving = True \<rparr>"

definition s3_rx :: radio_rx where
  "s3_rx = \<lparr> preamble_detected = True, rx_buffer = s2_rx_buffer, rx_len = 32 \<rparr>"

text \<open>Scenario S5: the hopper enabled on channel 2 with its last hop at time 0.\<close>

definition s5_hopper :: ChannelHopper where
  "s5_hopper = \<lparr> current_channel = CHANNEL_2, last_hop_time_ms = 0, hop_interval_us = 2700,
                 enabled = True \<rparr>"

text \<open>A second response frame, from the source 01 02 03, for the discovery scenario.\<close>

definition s8_frame :: IoFrame where
  "s8_frame = s2_frame\<lparr>src_node := [0x01, 0x02, 0x03]\<rparr>"


section \<open>Theorems\<close>

text \<open>
  C3 (as the code has it). \<open>compute_crc16\<close> on the nine ASCII bytes "123456789" with the
  initial value 0x0000 returns 0x2189, the check value of CRC-16/KERMIT, and the frame
  stores it low byte first, as the byte pair 89 21.
\<close>

theorem crc16_kermit_check_value:
  "compute_crc16 [0x31, 0x32, 0x33, 0x34, 0x35, 0x36, 0x37, 0x38, 0x39] CRC_INITIAL = 0x2189
   \<and> crc_wire_bytes (compute_crc16 [0x31, 0x32, 0x33, 0x34, 0x35, 0x36, 0x37, 0x38, 0x39] CRC_INITIAL)
       = [0x89, 0x21]"
  by code_simp

text \<open>
  C3 as the specification states it fails: the value is not 0x8921 and the wire bytes are
  not 21 89.
\<close>

theorem crc16_spec_vector_counterexample:
  "compute_crc16 [0x31, 0x32, 0x33, 0x34, 0x35, 0x36, 0x37, 0x38, 0x39] CRC_INITIAL \<noteq> 0x8921
   \<and> crc_wire_bytes (compute_crc16 [0x31, 0x32, 0x33, 0x34, 0x35, 0x36, 0x37, 0x38, 0x39] CRC_INITIAL)
       \<noteq> [0x21, 0x89]"
  by code_simp

section \<open>The length field of control byte 0\<close>

lemma length_field_le: "unat ((c0::u8) AND CTRL0_LENGTH_MASK) \<le> 31"
proof -
  have "unat (c0 AND 0x1F) \<le> unat (0x1F :: u8)"
    by (rule word_and_le1 [THEN word_le_nat_alt [THEN iffD1]])
  then show ?thesis by (simp add: CTRL0_LENGTH_MASK_def)
qed

lemma unat_get_frame_length: "unat (get_frame_length c0) = unat (c0 AND CTRL0_LENGTH_MASK) + 11"
proof -
  have "unat (c0 AND CTRL0_LENGTH_MASK) + unat (11 :: u8) < 2 ^ LENGTH(8)"
    using length_field_le [of c0] by simp
  then have "unat ((c0 AND CTRL0_LENGTH_MASK) + 11) = unat (c0 AND CTRL0_LENGTH_MASK) + unat (11 :: u8)"
    by (simp only: unat_add_lem)
  then show ?thesis by (simp add: get_frame_length_def FRAME_MIN_SIZE_def)
qed

lemma frame_overhead_cases: "frame_overhead b = (if b then 20 else 18)"
  by (simp add: frame_overhead_def ROLLING_CODE_SIZE_def HMAC_SIZE_def CRC_SIZE_def)

text \<open>The 8 bit subtraction of the overhead: exact when the result passes the check, wrapped
  to a value above 21 when the length is below the overhead.\<close>

lemma sub_nowrap:
  fixes flen :: u8
  assumes "unat flen \<le> 42" "ov = 18 \<or> ov = 20" "unat (flen - of_nat ov) \<le> 21"
  shows "unat flen = ov + unat (flen - of_nat ov)"
  using assms by (auto simp: unat_sub_if')

lemma sub_wraps:
  fixes flen :: u8
  assumes "unat flen < ov" "ov = 18 \<or> ov = 20"
  shows "21 < unat (flen - of_nat ov)"
  using assms by (auto simp: unat_sub_if')

lemma replicate_two: "replicate 2 x = [x, x]"
  by (simp add: numeral_2_eq_2)

section \<open>The parser\<close>

text \<open>On a buffer that holds the \<open>buffer_len\<close> bytes it is said to hold, the parser is
  this function: three checks, then the frame read at fixed offsets.\<close>

lemma parse_frame_eq:
  assumes "buffer_len \<le> length buffer"
  shows "parse_frame buffer buffer_len =
     (if buffer_len < 11 \<or> buffer_len < unat (get_frame_length (buffer ! 0))
         \<or> 21 < unat (get_frame_length (buffer ! 0) - of_nat (frame_overhead (\<not> is_2w_mode (buffer ! 0))))
      then Inr None else Inr (Some (parsed_frame buffer)))"
proof (cases "buffer_len < 11")
  case True
  then show ?thesis by (simp add: parse_frame_def FRAME_MIN_SIZE_def)
next
  case False
  define c0 where "c0 = buffer ! 0"
  define flen where "flen = get_frame_length c0"
  have len: "11 \<le> length buffer" using False assms by simp
  have fl: "unat flen \<le> 42"
    using length_field_le [of c0] by (simp add: flen_def unat_get_frame_length)
  show ?thesis
  proof (cases "is_2w_mode c0")
    case True
    have eq: "21 < unat (flen - 18) \<or> unat flen = 18 + unat (flen - 18)"
      using sub_nowrap [of flen 18] fl by (cases "21 < unat (flen - 18)") simp_all
    show ?thesis using False len assms True eq
      by (auto simp add: parse_frame_def parsed_frame_def FRAME_MIN_SIZE_def and_then_def
            read_u8_def read_bytes_def Let_def c0_def [symmetric] flen_def [symmetric]
            NODE_ID_SIZE_def FRAME_MAX_DATA_SIZE_def ROLLING_CODE_SIZE_def HMAC_SIZE_def
            CRC_SIZE_def frame_overhead_cases memcpy_def replicate_two)
  next
    case c: False
    have eq: "21 < unat (flen - 20) \<or> unat flen = 20 + unat (flen - 20)"
      using sub_nowrap [of flen 20] fl by (cases "21 < unat (flen - 20)") simp_all
    show ?thesis using False len assms c eq
      by (auto simp add: parse_frame_def parsed_frame_def FRAME_MIN_SIZE_def and_then_def
            read_u8_def read_bytes_def Let_def c0_def [symmetric] flen_def [symmetric]
            NODE_ID_SIZE_def FRAME_MAX_DATA_SIZE_def ROLLING_CODE_SIZE_def HMAC_SIZE_def
            CRC_SIZE_def frame_overhead_cases memcpy_def replicate_two)
  qed
qed

lemma parse_frame_SomeD:
  assumes "parse_frame buffer buffer_len = Inr (Some frame)"
  shows "11 \<le> buffer_len \<and> unat (frame_length frame) \<le> buffer_len
         \<and> frame_length frame = get_frame_length (ctrl_byte_0 frame)
         \<and> is_1w_mode frame = (\<not> is_2w_mode (ctrl_byte_0 frame))
         \<and> data_len frame = frame_length frame - of_nat (frame_overhead (is_1w_mode frame))
         \<and> unat (data_len frame) \<le> FRAME_MAX_DATA_SIZE"
  using assms
  by (auto simp add: parse_frame_def FRAME_MIN_SIZE_def and_then_def read_u8_def read_bytes_def
        Let_def FRAME_MAX_DATA_SIZE_def split: if_splits)

text \<open>
  C10. Whatever the buffer and the length given for it: when \<open>parse_frame\<close> returns true, the
  decoded parameter length is at most 21 and the frame length derived from control byte 0 is
  at most the buffer length; when the buffer has the bytes its length says, no read of the
  parser leaves it; a length field below the fixed overhead of the decoded mode makes the
  8 bit subtraction wrap to a value above 21, and such a buffer is rejected.
\<close>

theorem parse_frame_bounds:
  "(parse_frame buffer buffer_len = Inr (Some frame) \<longrightarrow>
      unat (data_len frame) \<le> FRAME_MAX_DATA_SIZE
      \<and> frame_length frame = get_frame_length (ctrl_byte_0 frame)
      \<and> unat (get_frame_length (ctrl_byte_0 frame)) \<le> buffer_len)
   \<and> (buffer_len \<le> length buffer \<longrightarrow> parse_frame buffer buffer_len \<noteq> Inl OutOfBoundsRead)
   \<and> (unat (get_frame_length c0) < frame_overhead (\<not> is_2w_mode c0) \<longrightarrow>
        FRAME_MAX_DATA_SIZE < unat (get_frame_length c0 - of_nat (frame_overhead (\<not> is_2w_mode c0))))
   \<and> (buffer_len \<le> length buffer
        \<and> unat (get_frame_length (buffer ! 0)) < frame_overhead (\<not> is_2w_mode (buffer ! 0)) \<longrightarrow>
        parse_frame buffer buffer_len = Inr None)"
proof (intro conjI impI)
  assume p: "parse_frame buffer buffer_len = Inr (Some frame)"
  note d = parse_frame_SomeD [OF p]
  from d show "unat (data_len frame) \<le> FRAME_MAX_DATA_SIZE" by blast
  from d show b: "frame_length frame = get_frame_length (ctrl_byte_0 frame)" by blast
  from d have "unat (frame_length frame) \<le> buffer_len" by blast
  then show "unat (get_frame_length (ctrl_byte_0 frame)) \<le> buffer_len" unfolding b .
next
  assume "buffer_len \<le> length buffer"
  then show "parse_frame buffer buffer_len \<noteq> Inl OutOfBoundsRead"
    by (simp add: parse_frame_eq)
next
  assume a: "unat (get_frame_length c0) < frame_overhead (\<not> is_2w_mode c0)"
  show "FRAME_MAX_DATA_SIZE < unat (get_frame_length c0 - of_nat (frame_overhead (\<not> is_2w_mode c0)))"
    unfolding FRAME_MAX_DATA_SIZE_def
    by (rule sub_wraps [OF a]) (simp add: frame_overhead_cases)
next
  assume a: "buffer_len \<le> length buffer
        \<and> unat (get_frame_length (buffer ! 0)) < frame_overhead (\<not> is_2w_mode (buffer ! 0))"
  then have "21 < unat (get_frame_length (buffer ! 0) - of_nat (frame_overhead (\<not> is_2w_mode (buffer ! 0))))"
    by (intro sub_wraps) (simp_all add: frame_overhead_cases)
  with a show "parse_frame buffer buffer_len = Inr None"
    by (simp add: parse_frame_eq)
qed

lemma parse_s2_rx_buffer: "parse_frame s2_rx_buffer 32 = Inr (Some s2_frame)"
  by code_simp

lemma parse_short_length_field:
  "parse_frame [0x05, 0, 0x64, 0x65, 0x75, 0xAB, 0xCD, 0xEF, 0x60, 0, 0, 0, 0, 0, 0, 0] 16 = Inr None"
  by code_simp

text \<open>
  The theorem at the received scenario frame (accepted, 2 parameter bytes, length 22 of 32)
  and at a 1W header whose length field says 16 bytes, below the 1W overhead.
\<close>

theorem parse_frame_bounds_witness:
  "parse_frame s2_rx_buffer 32 = Inr (Some s2_frame)
   \<and> unat (data_len s2_frame) \<le> FRAME_MAX_DATA_SIZE
   \<and> unat (get_frame_length (ctrl_byte_0 s2_frame)) \<le> 32
   \<and> 32 \<le> length s2_rx_buffer
   \<and> parse_frame s2_rx_buffer 32 \<noteq> Inl OutOfBoundsRead
   \<and> unat (get_frame_length 0x05) < frame_overhead (\<not> is_2w_mode 0x05)
   \<and> FRAME_MAX_DATA_SIZE < unat (get_frame_length 0x05 - of_nat (frame_overhead (\<not> is_2w_mode 0x05)))
   \<and> parse_frame [0x05, 0, 0x64, 0x65, 0x75, 0xAB, 0xCD, 0xEF, 0x60, 0, 0, 0, 0, 0, 0, 0] 16 = Inr None"
proof -
  have len: "32 \<le> length s2_rx_buffer"
    by (simp add: s2_rx_buffer_def s2_bytes_def)
  have low: "unat (get_frame_length 0x05) < frame_overhead (\<not> is_2w_mode 0x05)"
    by (simp add: get_frame_length_def is_2w_mode_def frame_overhead_cases
        CTRL0_LENGTH_MASK_def CTRL0_PROTOCOL_MASK_def FRAME_MIN_SIZE_def)
  from parse_frame_bounds [of s2_rx_buffer 32 s2_frame "0x05"] parse_s2_rx_buffer len low
    parse_short_length_field
  show ?thesis by simp
qed

section \<open>Building a frame\<close>

lemma unat_overhead_plus:
  assumes "n \<le> 21"
  shows "unat (20 + of_nat n :: u8) = 20 + n" and "unat (18 + of_nat n :: u8) = 18 + n"
proof -
  have "(20 + of_nat n :: u8) = of_nat (20 + n)" "(18 + of_nat n :: u8) = of_nat (18 + n)"
    by simp_all
  then show "unat (20 + of_nat n :: u8) = 20 + n" and "unat (18 + of_nat n :: u8) = 18 + n"
    using assms by (simp_all only: unat_of_nat) simp_all
qed

lemma set_command_fields:
  assumes "params_len \<le> FRAME_MAX_DATA_SIZE"
  shows "fst (set_command frame cmd_id params params_len)"
    and "unat (data_len (snd (set_command frame cmd_id params params_len))) = params_len"
    and "is_1w_mode (snd (set_command frame cmd_id params params_len)) = is_1w_mode frame"
    and "command_id (snd (set_command frame cmd_id params params_len)) = cmd_id"
    and "unat (frame_length (snd (set_command frame cmd_id params params_len)))
         = frame_overhead (is_1w_mode frame) + params_len"
  using assms
  by (auto simp add: set_command_def Let_def FRAME_MAX_DATA_SIZE_def frame_overhead_cases
        unat_of_nat unat_overhead_plus split: option.splits)

lemma length_bits_roundtrip:
  fixes total :: u8
  assumes "11 \<le> unat total" "unat total \<le> 42"
  shows "(total - 11) AND 0x1F = total - 11"
proof -
  have "unat (total - 11) = unat total - 11"
    using assms by (simp add: unat_sub_if')
  then have "unat (total - 11) < 2 ^ 5" using assms by simp
  then have "total - 11 < 2 ^ 5" by (simp add: word_less_nat_alt)
  then have "(total - 11) AND mask 5 = total - 11" by (simp add: less_mask_eq)
  then show ?thesis by (simp add: mask_eq_exp_minus_1)
qed

lemma merge_low: "((a AND NOT m) OR (b AND m)) AND m = b AND (m :: u8)"
  by (rule bit_eqI) (auto simp add: bit_and_iff bit_or_iff bit_not_iff)

lemma merge_high: "((a AND NOT m) OR (b AND m)) AND NOT m = a AND NOT (m :: u8)"
  by (rule bit_eqI) (auto simp add: bit_and_iff bit_or_iff bit_not_iff)

lemma set_command_ctrl0:
  "params_len \<le> FRAME_MAX_DATA_SIZE \<Longrightarrow>
   ctrl_byte_0 (snd (set_command frame cmd_id params params_len)) =
     (ctrl_byte_0 frame AND NOT CTRL0_LENGTH_MASK)
     OR ((frame_length (snd (set_command frame cmd_id params params_len)) - FRAME_MIN_SIZE) AND CTRL0_LENGTH_MASK)"
  by (auto simp add: set_command_def Let_def split: option.splits)

text \<open>
  C2 (as the code has it). For every frame that \<open>set_command\<close> builds from at most 21
  parameter bytes, the call succeeds, the stored total length is the overhead the code
  counts for the mode (header and command, the rolling code in 1W mode, the 6 byte tag and
  the 2 byte CRC; 2 more in 1W mode than in 2W mode) plus the number of parameters, the
  low 5 bits of control byte 0 are that total length minus 11, the upper 3 bits are
  untouched, and \<open>get_frame_length\<close> gives the total length back.
\<close>

theorem set_command_length_encoding:
  assumes "params_len \<le> FRAME_MAX_DATA_SIZE"
    and "set_command frame cmd_id params params_len = (ok, f)"
  shows "ok \<and> unat (data_len f) = params_len
     \<and> unat (frame_length f) = frame_overhead (is_1w_mode f) + params_len
     \<and> frame_overhead True = frame_overhead False + ROLLING_CODE_SIZE
     \<and> ctrl_byte_0 f AND CTRL0_LENGTH_MASK = frame_length f - FRAME_MIN_SIZE
     \<and> ctrl_byte_0 f AND NOT CTRL0_LENGTH_MASK = ctrl_byte_0 frame AND NOT CTRL0_LENGTH_MASK
     \<and> get_frame_length (ctrl_byte_0 f) = frame_length f"
proof -
  have f: "f = snd (set_command frame cmd_id params params_len)"
    and ok: "ok = fst (set_command frame cmd_id params params_len)"
    using assms(2) by simp_all
  note flds = set_command_fields [OF assms(1), of frame cmd_id params, folded f ok]
  have len: "unat (frame_length f) = frame_overhead (is_1w_mode f) + params_len"
    using flds by simp
  have range: "11 \<le> unat (frame_length f)" "unat (frame_length f) \<le> 42"
    using len assms(1) by (auto simp add: frame_overhead_cases FRAME_MAX_DATA_SIZE_def)
  have c0: "ctrl_byte_0 f = (ctrl_byte_0 frame AND NOT CTRL0_LENGTH_MASK)
      OR ((frame_length f - FRAME_MIN_SIZE) AND CTRL0_LENGTH_MASK)"
    using set_command_ctrl0 [OF assms(1), of frame cmd_id params] by (simp add: f)
  have "ctrl_byte_0 f AND CTRL0_LENGTH_MASK
          = (frame_length f - FRAME_MIN_SIZE) AND CTRL0_LENGTH_MASK"
    by (subst c0) (rule merge_low)
  also have "\<dots> = frame_length f - FRAME_MIN_SIZE"
    using length_bits_roundtrip [OF range] by (simp add: CTRL0_LENGTH_MASK_def FRAME_MIN_SIZE_def)
  finally have low: "ctrl_byte_0 f AND CTRL0_LENGTH_MASK = frame_length f - FRAME_MIN_SIZE" .
  have high: "ctrl_byte_0 f AND NOT CTRL0_LENGTH_MASK = ctrl_byte_0 frame AND NOT CTRL0_LENGTH_MASK"
    by (subst c0) (rule merge_high)
  have recov: "get_frame_length (ctrl_byte_0 f) = frame_length f"
    by (simp add: get_frame_length_def low)
  have ov: "frame_overhead True = frame_overhead False + ROLLING_CODE_SIZE"
    by (simp add: frame_overhead_def)
  from flds(1,2) len ov low high recov show ?thesis by blast
qed

lemma set_command_s2:
  "set_command (init_frame True) 0x60 (Some [0x32, 0x00]) 2
   = (True, (init_frame True)\<lparr>ctrl_byte_0 := 0x0B, command_id := 0x60, data_len := 2,
        data := [0x32, 0, 0, 0, 0, 0, 0, 0, 0, 0, 0, 0, 0, 0, 0, 0, 0, 0, 0, 0, 0],
        frame_length := 22\<rparr>)"
  by code_simp

text \<open>The theorem at the 1W frame of scenario S2: command 0x60 with the 2 parameter bytes 32 00.\<close>

theorem set_command_length_encoding_witness:
  "2 \<le> FRAME_MAX_DATA_SIZE
   \<and> fst (set_command (init_frame True) 0x60 (Some [0x32, 0x00]) 2)
   \<and> unat (data_len (snd (set_command (init_frame True) 0x60 (Some [0x32, 0x00]) 2))) = 2
   \<and> unat (frame_length (snd (set_command (init_frame True) 0x60 (Some [0x32, 0x00]) 2)))
        = frame_overhead True + 2
   \<and> get_frame_length (ctrl_byte_0 (snd (set_command (init_frame True) 0x60 (Some [0x32, 0x00]) 2)))
        = frame_length (snd (set_command (init_frame True) 0x60 (Some [0x32, 0x00]) 2))"
proof -
  have b: "2 \<le> FRAME_MAX_DATA_SIZE" by (simp add: FRAME_MAX_DATA_SIZE_def)
  have m: "is_1w_mode (snd (set_command (init_frame True) 0x60 (Some [0x32, 0x00]) 2))"
    unfolding set_command_s2 by (simp add: init_frame_def)
  from set_command_length_encoding [OF b surjective_pairing, of "init_frame True" "0x60" "Some [0x32, 0x00]"]
    b m
  show ?thesis by simp
qed

text \<open>
  C2 as the specification states it fails on the 1W frame with 2 parameter bytes: the total
  length is 22, not 11 + 2 + 2 = 15, and control byte 0 is 0x0B, not 0x04.
\<close>

theorem set_command_spec_length_counterexample:
  "frame_length (snd (set_command (init_frame True) 0x60 (Some [0x32, 0x00]) 2)) = 22
   \<and> unat (frame_length (snd (set_command (init_frame True) 0x60 (Some [0x32, 0x00]) 2))) \<noteq> 11 + 2 + 2
   \<and> ctrl_byte_0 (snd (set_command (init_frame True) 0x60 (Some [0x32, 0x00]) 2)) = 0x0B
   \<and> ctrl_byte_0 (snd (set_command (init_frame True) 0x60 (Some [0x32, 0x00]) 2)) \<noteq> 0x04
   \<and> ctrl_byte_0 (snd (set_command (init_frame True) 0x60 (Some [0x32, 0x00]) 2)) AND CTRL0_LENGTH_MASK \<noteq> 4"
  by (simp add: set_command_s2 CTRL0_LENGTH_MASK_def)

section \<open>The serialization of a built frame and the parser\<close>

lemma finalize_frame_TrueD:
  assumes "finalize_frame g system_key challenge = Inr (True, f)"
  shows "\<exists>tag c. f = g\<lparr>hmac := tag, crc := c\<rparr> \<and> unat (frame_length g) \<le> FRAME_MAX_SIZE"
  using assms
  by (auto simp add: finalize_frame_def and_then_def create_2w_hmac_def construct_iv_2w_def
        serialize_frame_def Let_def
        split: if_splits option.splits sum.splits)

lemma length_serialize_frame:
  assumes "serialize_frame f n = Some bytes"
  shows "length bytes \<le> 17 + unat (data_len f) + (if is_1w_mode f then 2 else 0)"
    and "bytes ! 0 = ctrl_byte_0 f"
  using assms
  by (auto simp add: serialize_frame_def NODE_ID_SIZE_def ROLLING_CODE_SIZE_def HMAC_SIZE_def
        CRC_SIZE_def split: if_splits)

text \<open>
  C1 (what the code does). Every frame built by the construction sequence, finalization
  included, serializes into fewer bytes than the total length it announces in control byte
  0, and \<open>parse_frame\<close> on exactly the serialized bytes returns false: the round trip the
  claim states never succeeds.
\<close>

theorem built_frame_not_parsed_back:
  assumes "build_frame is_1w dest src cmd_id params params_len code system_key challenge = Inr (True, f)"
  shows "\<exists>bytes. serialize_frame f FRAME_MAX_SIZE = Some bytes
           \<and> length bytes < unat (frame_length f)
           \<and> parse_frame bytes (length bytes) = Inr None"
proof -
  define f2 where "f2 = set_source (set_destination (init_frame is_1w) dest) src"
  define f3 where "f3 = snd (set_command f2 cmd_id params params_len)"
  define g where "g = (if is_1w then set_rolling_code f3 code else f3)"
  have ok: "fst (set_command f2 cmd_id params params_len)"
    and fin: "finalize_frame g system_key challenge = Inr (True, f)"
    using assms
    by (auto simp add: build_frame_def Let_def f2_def f3_def g_def split: if_splits)
  have n: "params_len \<le> FRAME_MAX_DATA_SIZE"
    using ok by (auto simp add: set_command_def split: if_splits)
  from set_command_fields [OF n, of f2 cmd_id params, folded f3_def]
  have len3: "unat (frame_length f3) = frame_overhead (is_1w_mode f3) + unat (data_len f3)"
    by simp
  have range: "11 \<le> unat (frame_length f3)" "unat (frame_length f3) \<le> 42"
    using len3 set_command_fields(2) [OF n, of f2 cmd_id params, folded f3_def] n
    by (auto simp add: frame_overhead_cases FRAME_MAX_DATA_SIZE_def)
  have "ctrl_byte_0 f3 AND CTRL0_LENGTH_MASK
          = (frame_length f3 - FRAME_MIN_SIZE) AND CTRL0_LENGTH_MASK"
    by (subst set_command_ctrl0 [OF n, of f2 cmd_id params, folded f3_def]) (rule merge_low)
  also have "\<dots> = frame_length f3 - FRAME_MIN_SIZE"
    using length_bits_roundtrip [OF range] by (simp add: CTRL0_LENGTH_MASK_def FRAME_MIN_SIZE_def)
  finally have rec3: "get_frame_length (ctrl_byte_0 f3) = frame_length f3"
    by (simp add: get_frame_length_def)
  from finalize_frame_TrueD [OF fin] obtain tag c
    where f: "f = g\<lparr>hmac := tag, crc := c\<rparr>" and fits: "unat (frame_length g) \<le> FRAME_MAX_SIZE"
    by blast
  have same: "frame_length f = frame_length f3" "ctrl_byte_0 f = ctrl_byte_0 f3"
    "data_len f = data_len f3" "is_1w_mode f = is_1w_mode f3"
    by (simp_all add: f g_def set_rolling_code_def)
  have len: "unat (frame_length f) = frame_overhead (is_1w_mode f) + unat (data_len f)"
    and recov: "get_frame_length (ctrl_byte_0 f) = frame_length f"
    using len3 rec3 by (simp_all add: same)
  from fits obtain bytes where ser: "serialize_frame f FRAME_MAX_SIZE = Some bytes"
    by (auto simp add: serialize_frame_def f g_def set_rolling_code_def)
  note sb = length_serialize_frame [OF ser]
  have short: "length bytes < unat (frame_length f)"
    using sb(1) len by (auto simp add: frame_overhead_cases split: if_splits)
  have "parse_frame bytes (length bytes) = Inr None"
    using short by (simp add: parse_frame_eq sb(2) recov)
  with ser short show ?thesis by blast
qed

lemma build_s2:
  "build_frame True [0x64, 0x65, 0x75] [0xAB, 0xCD, 0xEF] 0x60 (Some [0x32, 0x00]) 2 0x0007 s2_key None
   = Inr (True, s2_frame)"
  by code_simp

lemma serialize_s2: "serialize_frame s2_frame FRAME_MAX_SIZE = Some s2_bytes"
  by code_simp

text \<open>
  The theorem at the frame of scenario S2: it is built and finalized, its 21 serialized
  bytes announce 22, and parsing these 21 bytes fails.
\<close>

theorem built_frame_not_parsed_back_witness:
  "build_frame True [0x64, 0x65, 0x75] [0xAB, 0xCD, 0xEF] 0x60 (Some [0x32, 0x00]) 2 0x0007 s2_key None
     = Inr (True, s2_frame)
   \<and> serialize_frame s2_frame FRAME_MAX_SIZE = Some s2_bytes
   \<and> length s2_bytes = 21 \<and> unat (frame_length s2_frame) = 22
   \<and> parse_frame s2_bytes (length s2_bytes) = Inr None"
proof -
  from built_frame_not_parsed_back [OF build_s2] obtain bytes
    where "serialize_frame s2_frame FRAME_MAX_SIZE = Some bytes"
      and p: "parse_frame bytes (length bytes) = Inr None"
    by blast
  then have "bytes = s2_bytes" by (simp add: serialize_s2)
  with p have "parse_frame s2_bytes (length s2_bytes) = Inr None" by simp
  moreover have "length s2_bytes = 21" "unat (frame_length s2_frame) = 22"
    by (simp_all add: s2_bytes_def s2_frame_def)
  ultimately show ?thesis using build_s2 serialize_s2 by simp
qed

section \<open>The key-transfer envelope\<close>

lemma length_xor_bytes: "length (xor_bytes xs ys) = min (length xs) (length ys)"
  by (simp add: xor_bytes_def)

lemma length_shift_rows: "length (shift_rows s) = 16"
  by (simp add: shift_rows_def)

lemma length_mix_columns: "length (mix_columns xs) = length xs"
  by (induction xs rule: mix_columns.induct) simp_all

lemma div4_step: "(4 + n) div 4 = Suc (n div (4::nat))"
  by presburger

lemma length_key_chain:
  "4 \<le> length acc \<Longrightarrow> length (key_chain acc ks) = length acc + 4 * (length ks div 4)"
proof (induction acc ks rule: key_chain.induct)
  case (1 acc k0 k1 k2 k3 ks)
  have "length (acc @ xor_bytes [k0, k1, k2, k3] (drop (length acc - 4) acc)) = length acc + 4"
    using "1.prems" by (simp add: length_xor_bytes)
  with "1.IH" show ?case by (simp add: div4_step)
qed simp_all

lemma length_next_round_key: "length rk = 16 \<Longrightarrow> length (next_round_key rk rc) = 16"
  by (simp add: next_round_key_def length_key_chain length_xor_bytes)

lemma length_aes_round: "length st = 16 \<Longrightarrow> length rk = 16 \<Longrightarrow> length (aes_round final st rk) = 16"
  by (simp add: aes_round_def length_xor_bytes length_shift_rows length_mix_columns)

lemma length_aes_rounds:
  "length st = 16 \<Longrightarrow> length rk = 16 \<Longrightarrow> length (aes_rounds n st rk rc) = 16"
  by (induction n arbitrary: st rk rc) (simp_all add: length_aes_round length_next_round_key)

lemma length_aes128_block:
  "length key = 16 \<Longrightarrow> length input = 16 \<Longrightarrow> length (aes128_block key input) = 16"
  by (simp add: aes128_block_def length_aes_rounds length_next_round_key length_xor_bytes)

text \<open>The cipher is the one of FIPS-197: the example vector of its appendix C.1.\<close>

lemma aes128_block_fips197_c1:
  "aes128_block s2_key
     [0x00, 0x11, 0x22, 0x33, 0x44, 0x55, 0x66, 0x77, 0x88, 0x99, 0xAA, 0xBB, 0xCC, 0xDD, 0xEE, 0xFF]
   = [0x69, 0xC4, 0xE0, 0xD8, 0x6A, 0x7B, 0x04, 0x30, 0xD8, 0xCD, 0xB7, 0x80, 0x70, 0xB4, 0xC5, 0x5A]"
  by code_simp

lemma upt_16: "[0 ..< 16] = [0, 1, 2, 3, 4, 5, 6, 7, 8, 9, 10, 11, 12, 13, 14, 15 :: nat]"
  by code_simp

lemma node_iv: "map (\<lambda>i. [a, b, c] ! (i mod NODE_ID_SIZE)) [0 ..< 16]
  = [a, b, c, a, b, c, a, b, c, a, b, c, a, b, c, a :: u8]"
  by (simp add: upt_16 NODE_ID_SIZE_def)

lemma xor_loop_eq:
  assumes "length xs = 16" "length ys = 16"
  shows "map (\<lambda>i. xs ! i XOR ys ! i) [0 ..< 16] = xor_bytes xs (ys :: u8 list)"
  using assms by (intro nth_equalityI) (simp_all add: xor_bytes_def)

lemma xor_bytes_cancel:
  assumes "length xs = length ys"
  shows "xor_bytes (xor_bytes xs ys) ys = (xs :: u8 list)"
  using assms by (intro nth_equalityI) (simp_all add: xor_bytes_def xor.assoc)

text \<open>
  C9. For every 16 byte system key and every destination node id \<open>a b c\<close>, the envelope of
  \<open>encrypt_1w_key\<close> is the key XOR the AES-128 encryption, under the transfer key, of the
  block \<open>a b c a b c a b c a b c a b c a\<close>; XOR-ing the envelope with that encryption gives
  the key back, and so does \<open>encrypt_1w_key\<close> applied to the envelope with the same
  destination.
\<close>

theorem key_envelope_roundtrip:
  assumes "length system_key = 16"
  shows "encrypt_1w_key system_key [a, b, c]
           = Some (xor_bytes system_key
                     (aes128_block TRANSFER_KEY [a, b, c, a, b, c, a, b, c, a, b, c, a, b, c, a]))
     \<and> xor_bytes (xor_bytes system_key
                     (aes128_block TRANSFER_KEY [a, b, c, a, b, c, a, b, c, a, b, c, a, b, c, a]))
                  (aes128_block TRANSFER_KEY [a, b, c, a, b, c, a, b, c, a, b, c, a, b, c, a])
           = system_key
     \<and> encrypt_1w_key (xor_bytes system_key
                     (aes128_block TRANSFER_KEY [a, b, c, a, b, c, a, b, c, a, b, c, a, b, c, a]))
                  [a, b, c]
           = Some system_key"
proof -
  define m where "m = aes128_block TRANSFER_KEY [a, b, c, a, b, c, a, b, c, a, b, c, a, b, c, a]"
  have lm: "length m = 16"
    unfolding m_def by (rule length_aes128_block) (simp_all add: TRANSFER_KEY_def)
  have enc: "encrypt_1w_key k [a, b, c] = Some (xor_bytes k m)" if "length k = 16" for k
    using that lm
    by (simp add: encrypt_1w_key_def aes128_encrypt_def node_iv m_def [symmetric] xor_loop_eq)
  have c: "xor_bytes (xor_bytes system_key m) m = system_key"
    using assms lm by (simp add: xor_bytes_cancel)
  have "length (xor_bytes system_key m) = 16"
    using assms lm by (simp add: length_xor_bytes)
  from enc [OF this] c have "encrypt_1w_key (xor_bytes system_key m) [a, b, c] = Some system_key"
    by simp
  with enc [OF assms] c show ?thesis by (simp add: m_def)
qed

lemma transfer_mask_s6:
  "aes128_block TRANSFER_KEY
     [0xAA, 0xBB, 0xCC, 0xAA, 0xBB, 0xCC, 0xAA, 0xBB, 0xCC, 0xAA, 0xBB, 0xCC, 0xAA, 0xBB, 0xCC, 0xAA]
   = [0x5A, 0x35, 0x99, 0xD2, 0xE4, 0xC1, 0x33, 0x8F, 0x8D, 0x83, 0xFC, 0xC8, 0x97, 0x34, 0xA6, 0x16]"
  by code_simp

text \<open>The theorem at scenario S6: destination AA BB CC and the key 00 01 .. 0F.\<close>

theorem key_envelope_roundtrip_witness:
  "length s2_key = 16
   \<and> encrypt_1w_key s2_key [0xAA, 0xBB, 0xCC]
       = Some [0x5A, 0x34, 0x9B, 0xD1, 0xE0, 0xC4, 0x35, 0x88, 0x85, 0x8A, 0xF6, 0xC3, 0x9B, 0x39, 0xA8, 0x19]
   \<and> encrypt_1w_key [0x5A, 0x34, 0x9B, 0xD1, 0xE0, 0xC4, 0x35, 0x88, 0x85, 0x8A, 0xF6, 0xC3, 0x9B, 0x39, 0xA8, 0x19]
         [0xAA, 0xBB, 0xCC]
       = Some s2_key"
proof -
  have l: "length s2_key = 16" by (simp add: s2_key_def)
  have x: "xor_bytes s2_key
       [0x5A, 0x35, 0x99, 0xD2, 0xE4, 0xC1, 0x33, 0x8F, 0x8D, 0x83, 0xFC, 0xC8, 0x97, 0x34, 0xA6, 0x16]
     = [0x5A, 0x34, 0x9B, 0xD1, 0xE0, 0xC4, 0x35, 0x88, 0x85, 0x8A, 0xF6, 0xC3, 0x9B, 0x39, 0xA8, 0x19]"
    by (simp add: xor_bytes_def s2_key_def)
  from key_envelope_roundtrip [OF l, of "0xAA" "0xBB" "0xCC"] l
  show ?thesis by (simp only: transfer_mask_s6 x)
qed

section \<open>Validation of 2W frames\<close>

text \<open>
  C5 (what the code does). For every 2W frame whose serialization fits the temporary buffer
  and passes the CRC check, \<open>validate_frame\<close> with a system key and no challenge does not
  return at all: it reaches the tag computation and reads the challenge through the null
  pointer.
\<close>

theorem validate_2w_null_challenge:
  assumes "\<not> is_1w_mode frame"
    and "serialize_frame frame FRAME_MAX_SIZE = Some bytes"
    and "verify_crc16 bytes (length bytes)"
  shows "validate_frame frame (Some system_key) None = Inl NullPointerRead"
  using assms
  by (simp add: validate_frame_def verify_hmac_def create_2w_hmac_def construct_iv_2w_def
      and_then_def)

lemma build_s4:
  "build_frame False [0x64, 0x65, 0x75] [0xAB, 0xCD, 0xEF] CMD_CHALLENGE_RESPONSE
     (Some s4_challenge) 6 0 s2_key (Some s4_challenge)
   = Inr (True, s4_frame)"
  by code_simp

lemma serialize_s4: "serialize_frame s4_frame FRAME_MAX_SIZE = Some s4_bytes"
  by code_simp

lemma crc_s4: "verify_crc16 s4_bytes (length s4_bytes)"
  by code_simp

text \<open>
  The theorem at the response frame of scenario S4, validated the way \<open>check_received\<close>
  validates every received frame: with the system key and the default null challenge.
\<close>

theorem validate_2w_null_challenge_witness:
  "\<not> is_1w_mode s4_frame
   \<and> serialize_frame s4_frame FRAME_MAX_SIZE = Some s4_bytes
   \<and> verify_crc16 s4_bytes (length s4_bytes)
   \<and> validate_frame s4_frame (Some s2_key) None = Inl NullPointerRead"
proof -
  have m: "\<not> is_1w_mode s4_frame" by (simp add: s4_frame_def)
  from validate_2w_null_challenge [OF m serialize_s4 crc_s4, of s2_key] m serialize_s4 crc_s4
  show ?thesis by simp
qed

section \<open>Challenge-response verification\<close>

lemma validate_frame_with_challenge_no_fault:
  "validate_frame frame (Some system_key) (Some ch) \<noteq> Inl e"
  by (auto simp add: validate_frame_def verify_hmac_def create_2w_hmac_def construct_iv_2w_def
      and_then_def create_1w_hmac_def aes128_encrypt_def Let_def split: option.splits)

lemma validate_frame_with_challenge_cases:
  "validate_frame frame (Some system_key) (Some ch) = Inr True
   \<or> validate_frame frame (Some system_key) (Some ch) = Inr False"
  using validate_frame_with_challenge_no_fault [of frame system_key ch]
  by (cases "validate_frame frame (Some system_key) (Some ch)") auto

lemma auth_reachable_timeout: "auth_reachable mgr \<Longrightarrow> challenge_timeout_ms mgr = 5000"
proof (induction rule: auth_reachable.induct)
  case reach_new
  show ?case by (simp add: AuthenticationManager_new_def)
next
  case (reach_begin mgr system_key)
  then show ?case by (simp add: auth_begin_def)
next
  case (reach_generate mgr random_bytes now)
  then show ?case by (simp add: generate_challenge_def Let_def)
next
  case (reach_verify mgr now frame ok mgr')
  then show ?case
    by (auto simp add: verify_challenge_response_def and_then_def
        split: if_splits sum.splits)
next
  case (reach_reset mgr)
  then show ?case by (simp add: auth_reset_def)
qed

text \<open>
  C6. For every manager the code can produce, \<open>verify_challenge_response\<close> returns true
  exactly when the state is \<open>CHALLENGE_SENT\<close>, the time elapsed since the challenge's time
  stamp (the clock difference in unsigned 32 bit milliseconds) is at most 5000, the command
  is 0x3D and \<open>validate_frame\<close> passes with the stored challenge; it then leaves the state
  \<open>AUTHENTICATED\<close>. With a challenge sent, an elapsed time above 5000 returns false and
  leaves the state \<open>IDLE\<close>. The call never faults, and \<open>generate_challenge\<close> is what
  sets the time stamp and the state \<open>CHALLENGE_SENT\<close>.
\<close>

theorem verify_challenge_response_iff:
  assumes "auth_reachable mgr"
  shows "((verify_challenge_response now frame mgr = Inr (True, mgr')) =
           (auth_state mgr = CHALLENGE_SENT
            \<and> now - challenge_timestamp mgr \<le> 5000
            \<and> command_id frame = 0x3D
            \<and> validate_frame frame (Some (auth_system_key mgr)) (Some (current_challenge mgr)) = Inr True
            \<and> mgr' = mgr\<lparr>auth_state := AUTHENTICATED\<rparr>))
     \<and> (auth_state mgr = CHALLENGE_SENT \<and> 5000 < now - challenge_timestamp mgr \<longrightarrow>
           verify_challenge_response now frame mgr = Inr (False, mgr\<lparr>auth_state := ChallengeState.IDLE\<rparr>))
     \<and> verify_challenge_response now frame mgr \<noteq> Inl e
     \<and> auth_state (snd (generate_challenge random_bytes t0 mgr)) = CHALLENGE_SENT
     \<and> challenge_timestamp (snd (generate_challenge random_bytes t0 mgr)) = t0"
proof -
  note t = auth_reachable_timeout [OF assms]
  note v = validate_frame_with_challenge_cases [of frame "auth_system_key mgr" "current_challenge mgr"]
  have a: "(verify_challenge_response now frame mgr = Inr (True, mgr')) =
           (auth_state mgr = CHALLENGE_SENT
            \<and> now - challenge_timestamp mgr \<le> 5000
            \<and> command_id frame = 0x3D
            \<and> validate_frame frame (Some (auth_system_key mgr)) (Some (current_challenge mgr)) = Inr True
            \<and> mgr' = mgr\<lparr>auth_state := AUTHENTICATED\<rparr>)"
    using v
    by (auto simp add: verify_challenge_response_def and_then_def t CMD_CHALLENGE_RESPONSE_def
        not_less)
  have b: "auth_state mgr = CHALLENGE_SENT \<and> 5000 < now - challenge_timestamp mgr \<longrightarrow>
           verify_challenge_response now frame mgr = Inr (False, mgr\<lparr>auth_state := ChallengeState.IDLE\<rparr>)"
    by (simp add: verify_challenge_response_def t)
  have c: "verify_challenge_response now frame mgr \<noteq> Inl e"
    using v by (auto simp add: verify_challenge_response_def and_then_def)
  have d: "auth_state (snd (generate_challenge random_bytes t0 mgr)) = CHALLENGE_SENT"
    "challenge_timestamp (snd (generate_challenge random_bytes t0 mgr)) = t0"
    by (simp_all add: generate_challenge_def Let_def)
  from a b c d show ?thesis by (intro conjI)
qed

lemma validate_s4: "validate_frame s4_frame (Some s2_key) (Some s4_challenge) = Inr True"
  by code_simp

text \<open>
  The theorem at scenario S4: a manager begun with the key of S2 that generated the challenge
  11 22 33 44 55 66 at time 1000; the response frame verifies at time 6000, 5 seconds later,
  and no longer at time 6001.
\<close>

theorem verify_challenge_response_iff_witness:
  "auth_reachable (snd (generate_challenge s4_challenge 1000 (auth_begin s2_key AuthenticationManager_new)))
   \<and> verify_challenge_response 6000 s4_frame
         (snd (generate_challenge s4_challenge 1000 (auth_begin s2_key AuthenticationManager_new)))
       = Inr (True, (snd (generate_challenge s4_challenge 1000 (auth_begin s2_key AuthenticationManager_new)))
                      \<lparr>auth_state := AUTHENTICATED\<rparr>)
   \<and> verify_challenge_response 6001 s4_frame
         (snd (generate_challenge s4_challenge 1000 (auth_begin s2_key AuthenticationManager_new)))
       = Inr (False, (snd (generate_challenge s4_challenge 1000 (auth_begin s2_key AuthenticationManager_new)))
                      \<lparr>auth_state := ChallengeState.IDLE\<rparr>)"
proof -
  define mgr where
    "mgr = snd (generate_challenge s4_challenge 1000 (auth_begin s2_key AuthenticationManager_new))"
  have r: "auth_reachable mgr"
    unfolding mgr_def by (intro reach_generate reach_begin reach_new)
  have flds: "auth_state mgr = CHALLENGE_SENT" "challenge_timestamp mgr = 1000"
    "auth_system_key mgr = s2_key" "current_challenge mgr = s4_challenge"
    by (simp_all add: mgr_def generate_challenge_def auth_begin_def AuthenticationManager_new_def
        memcpy_def Let_def HMAC_SIZE_def s4_challenge_def s2_key_def)
  have cmd: "command_id s4_frame = 0x3D" by (simp add: s4_frame_def)
  have a: "verify_challenge_response 6000 s4_frame mgr = Inr (True, mgr\<lparr>auth_state := AUTHENTICATED\<rparr>)"
    using verify_challenge_response_iff [OF r, of 6000 s4_frame "mgr\<lparr>auth_state := AUTHENTICATED\<rparr>"]
    by (simp add: flds cmd validate_s4)
  have b: "verify_challenge_response 6001 s4_frame mgr = Inr (False, mgr\<lparr>auth_state := ChallengeState.IDLE\<rparr>)"
    using verify_challenge_response_iff [OF r, of 6001 s4_frame]
    by (simp add: flds)
  from r a b show ?thesis unfolding mgr_def by simp
qed

section \<open>The receive path and rolling codes\<close>

lemma check_received_eq:
  "check_received ctl rx =
     (if ctl_receiving ctl \<and> preamble_detected rx \<and> 0 \<le> rx_len rx
      then (case parse_frame (rx_buffer rx) (nat (rx_len rx)) of
              Inl e \<Rightarrow> Inl e
            | Inr None \<Rightarrow> Inr (False, None, ctl)
            | Inr (Some frame) \<Rightarrow>
                (case validate_frame frame (Some (ctl_system_key ctl)) None of
                   Inl e \<Rightarrow> Inl e
                 | Inr valid \<Rightarrow> if valid then Inr (True, Some frame, ctl) else Inr (False, None, ctl)))
      else Inr (False, None, ctl))"
  by (auto simp add: check_received_def and_then_def split: sum.splits option.splits)

text \<open>
  C4 (as the code has it). On the receive path a frame is accepted exactly when the
  controller is receiving, the radio reports a preamble and a non-negative length, the
  buffer parses and \<open>validate_frame\<close> passes with the system key (CRC, and the tag bound to
  the rolling code the frame itself carries); an accepted frame is the parsed one and a
  rejected frame is not delivered. The controller is left as it was, whatever the verdict,
  and the verdict does not depend on the rolling code the controller stores: there is no
  last-seen counter, so a frame accepted once is accepted again when it is replayed.
\<close>

theorem check_received_no_replay_window:
  "((check_received ctl rx = Inr (True, delivered, ctl')) =
      (ctl_receiving ctl \<and> preamble_detected rx \<and> 0 \<le> rx_len rx
       \<and> (\<exists>frame. delivered = Some frame
              \<and> parse_frame (rx_buffer rx) (nat (rx_len rx)) = Inr (Some frame)
              \<and> validate_frame frame (Some (ctl_system_key ctl)) None = Inr True)
       \<and> ctl' = ctl))
   \<and> (check_received ctl rx = Inr (False, delivered, ctl') \<longrightarrow> delivered = None \<and> ctl' = ctl)
   \<and> (check_received ctl rx = Inr (True, delivered, ctl') \<longrightarrow>
        check_received ctl' rx = Inr (True, delivered, ctl'))
   \<and> (check_received (ctl\<lparr>ctl_rolling_code := code\<rparr>) rx = Inr (accepted, delivered, ctl'') \<longrightarrow>
        check_received ctl rx = Inr (accepted, delivered, ctl''\<lparr>ctl_rolling_code := ctl_rolling_code ctl\<rparr>))"
proof -
  have a: "(check_received ctl rx = Inr (True, delivered, ctl')) =
      (ctl_receiving ctl \<and> preamble_detected rx \<and> 0 \<le> rx_len rx
       \<and> (\<exists>frame. delivered = Some frame
              \<and> parse_frame (rx_buffer rx) (nat (rx_len rx)) = Inr (Some frame)
              \<and> validate_frame frame (Some (ctl_system_key ctl)) None = Inr True)
       \<and> ctl' = ctl)"
    by (auto simp add: check_received_eq split: sum.splits option.splits if_splits)
  have b: "check_received ctl rx = Inr (False, delivered, ctl') \<longrightarrow> delivered = None \<and> ctl' = ctl"
    by (auto simp add: check_received_eq split: sum.splits option.splits if_splits)
  have c: "check_received ctl rx = Inr (True, delivered, ctl') \<longrightarrow>
        check_received ctl' rx = Inr (True, delivered, ctl')"
    by (auto simp add: check_received_eq split: sum.splits option.splits if_splits)
  have d: "check_received (ctl\<lparr>ctl_rolling_code := code\<rparr>) rx = Inr (accepted, delivered, ctl'') \<longrightarrow>
        check_received ctl rx = Inr (accepted, delivered, ctl''\<lparr>ctl_rolling_code := ctl_rolling_code ctl\<rparr>)"
    by (auto simp add: check_received_eq split: sum.splits option.splits if_splits)
  from a b c d show ?thesis by (intro conjI)
qed

lemma validate_s2: "validate_frame s2_frame (Some s2_key) None = Inr True"
  by code_simp

lemma check_received_s3: "check_received s3_controller s3_rx = Inr (True, Some s2_frame, s3_controller)"
  by (simp add: check_received_eq s3_controller_def s3_rx_def parse_s2_rx_buffer validate_s2)

text \<open>
  The theorem at the receiving controller and the frame of S2 with rolling code 7: it is
  accepted, accepted again from the controller the first reception leaves, and accepted
  whatever rolling code the controller stores.
\<close>

theorem check_received_no_replay_window_witness:
  "check_received s3_controller s3_rx = Inr (True, Some s2_frame, s3_controller)
   \<and> check_received (s3_controller\<lparr>ctl_rolling_code := 500\<rparr>) s3_rx
       = Inr (True, Some s2_frame, s3_controller\<lparr>ctl_rolling_code := 500\<rparr>)
   \<and> check_received (s3_controller\<lparr>ctl_receiving := False\<rparr>) s3_rx
       = Inr (False, None, s3_controller\<lparr>ctl_receiving := False\<rparr>)"
proof -
  have k: "ctl_system_key (s3_controller\<lparr>ctl_rolling_code := 500\<rparr>) = s2_key"
    "ctl_receiving (s3_controller\<lparr>ctl_rolling_code := 500\<rparr>)"
    by (simp_all add: s3_controller_def)
  have a: "check_received (s3_controller\<lparr>ctl_rolling_code := 500\<rparr>) s3_rx
       = Inr (True, Some s2_frame, s3_controller\<lparr>ctl_rolling_code := 500\<rparr>)"
    using check_received_no_replay_window
      [of "s3_controller\<lparr>ctl_rolling_code := 500\<rparr>" s3_rx "Some s2_frame"
          "s3_controller\<lparr>ctl_rolling_code := 500\<rparr>"]
    by (simp add: k s3_rx_def parse_s2_rx_buffer validate_s2)
  have b: "check_received (s3_controller\<lparr>ctl_receiving := False\<rparr>) s3_rx
       = Inr (False, None, s3_controller\<lparr>ctl_receiving := False\<rparr>)"
    by (simp add: check_received_eq)
  from check_received_s3 a b show ?thesis by simp
qed

text \<open>
  C4 as the specification states it fails. The frame of S2 with rolling code 7 is accepted;
  the controller that this reception leaves is the controller before it; and from that
  controller the same frame, now with \<open>rc - last_seen = 0\<close>, is accepted again.
\<close>

theorem replayed_frame_accepted_counterexample:
  "check_received s3_controller s3_rx = Inr (True, Some s2_frame, s3_controller)
   \<and> rolling_code s2_frame = [0x07, 0x00]
   \<and> snd (snd (projr (check_received s3_controller s3_rx))) = s3_controller
   \<and> check_received (snd (snd (projr (check_received s3_controller s3_rx)))) s3_rx
       = Inr (True, Some s2_frame, s3_controller)"
  by (simp add: check_received_s3 s2_frame_def)

section \<open>The channel hopper\<close>

text \<open>The elapsed time as \<open>update\<close> computes it: the difference of the two millisecond
  readings, times 1000, all in unsigned 32 bit arithmetic.\<close>

lemma elapsed_us_word:
  fixes t l :: u32
  shows "unat (t * 1000 - l * 1000) = (1000 * unat (t - l)) mod 2 ^ 32"
proof -
  have "t * 1000 - l * 1000 = (t - l) * 1000" by (simp add: left_diff_distrib)
  then have "unat (t * 1000 - l * 1000) = unat ((t - l) * 1000)" by simp
  also have "\<dots> = (unat (t - l) * unat (1000 :: u32)) mod 2 ^ LENGTH(32)"
    by (simp only: unat_word_ariths)
  finally show ?thesis by (simp add: mult.commute)
qed

lemma elapsed_us_plain:
  fixes t l :: u32
  assumes "l \<le> t" "1000 * (unat t - unat l) < 2 ^ 32"
  shows "(1000 * unat (t - l)) mod 2 ^ 32 = 1000 * (unat t - unat l)"
proof -
  have "unat (t - l) = unat t - unat l" using assms(1) by (rule unat_sub)
  then show ?thesis using assms(2) by simp
qed

text \<open>
  C7 (as the code has it). The hopper's clock is in milliseconds. When it is enabled, one
  call of \<open>update\<close> makes one transition if the elapsed time it computes, 1000 times the
  difference of the current time and the last hop time in unsigned 32 bit arithmetic, is
  at least the dwell time (in microseconds), and none otherwise; a transition follows the
  cycle channel 1, channel 2, channel 3, channel 1 and sets the last hop time to the time of
  the call. Whenever the clock has not gone back behind the last hop and fewer than
  \<open>2^32\<close> microseconds have passed since it, the elapsed time is
  \<open>1000 * (now_ms - last_hop_ms)\<close> without wrap-around, at any uptime. When the hopper is
  disabled, \<open>update\<close> changes nothing.
\<close>

theorem update_hops_once_per_call:
  "(enabled h \<longrightarrow>
      update t h =
        (if unat (hop_interval_us h) \<le> (1000 * unat (t - last_hop_time_ms h)) mod 2 ^ 32
         then (True, h\<lparr>current_channel :=
                           (case current_channel h of
                              CHANNEL_1 \<Rightarrow> CHANNEL_2
                            | CHANNEL_2 \<Rightarrow> CHANNEL_3
                            | CHANNEL_3 \<Rightarrow> CHANNEL_1),
                        last_hop_time_ms := t\<rparr>)
         else (False, h)))
   \<and> (last_hop_time_ms h \<le> t \<and> 1000 * (unat t - unat (last_hop_time_ms h)) < 2 ^ 32 \<longrightarrow>
        (1000 * unat (t - last_hop_time_ms h)) mod 2 ^ 32
          = 1000 * (unat t - unat (last_hop_time_ms h)))
   \<and> (\<not> enabled h \<longrightarrow> update t h = (False, h))"
proof (intro conjI impI)
  assume a: "enabled h"
  have n: "(next_channel h)\<lparr>last_hop_time_ms := t\<rparr>
      = h\<lparr>current_channel := (case current_channel h of
                                  CHANNEL_1 \<Rightarrow> CHANNEL_2
                                | CHANNEL_2 \<Rightarrow> CHANNEL_3
                                | CHANNEL_3 \<Rightarrow> CHANNEL_1),
           last_hop_time_ms := t\<rparr>"
    by (cases "current_channel h") (simp_all add: next_channel_def)
  show "update t h =
        (if unat (hop_interval_us h) \<le> (1000 * unat (t - last_hop_time_ms h)) mod 2 ^ 32
         then (True, h\<lparr>current_channel :=
                           (case current_channel h of
                              CHANNEL_1 \<Rightarrow> CHANNEL_2
                            | CHANNEL_2 \<Rightarrow> CHANNEL_3
                            | CHANNEL_3 \<Rightarrow> CHANNEL_1),
                        last_hop_time_ms := t\<rparr>)
         else (False, h))"
    using a by (simp add: update_def Let_def word_le_nat_alt elapsed_us_word n)
next
  assume "last_hop_time_ms h \<le> t \<and> 1000 * (unat t - unat (last_hop_time_ms h)) < 2 ^ 32"
  then show "(1000 * unat (t - last_hop_time_ms h)) mod 2 ^ 32
          = 1000 * (unat t - unat (last_hop_time_ms h))"
    by (intro elapsed_us_plain) simp_all
next
  assume "\<not> enabled h"
  then show "update t h = (False, h)" by (simp add: update_def)
qed

text \<open>
  The theorem on millisecond time stamps from scenario S5 (channel 2, last hop at 0, dwell
  2700 microseconds): no hop at 2 ms, a hop to channel 3 at 3 ms, then to channel 1 at 6 ms
  and to channel 2 at 9 ms; after two hours of uptime, with the last hop at 7200000 ms, no
  hop at 7200002 ms and a hop at 7200003 ms; and the disabled hopper of the constructor
  does not hop.
\<close>

theorem update_hops_once_per_call_witness:
  "enabled s5_hopper
   \<and> last_hop_time_ms s5_hopper \<le> 3
   \<and> 1000 * (unat (3 :: u32) - unat (last_hop_time_ms s5_hopper)) < 2 ^ 32
   \<and> update 2 s5_hopper = (False, s5_hopper)
   \<and> update 3 s5_hopper = (True, s5_hopper\<lparr>current_channel := CHANNEL_3, last_hop_time_ms := 3\<rparr>)
   \<and> update 6 (snd (update 3 s5_hopper))
       = (True, s5_hopper\<lparr>current_channel := CHANNEL_1, last_hop_time_ms := 6\<rparr>)
   \<and> update 9 (snd (update 6 (snd (update 3 s5_hopper))))
       = (True, s5_hopper\<lparr>current_channel := CHANNEL_2, last_hop_time_ms := 9\<rparr>)
   \<and> update 7200002 (s5_hopper\<lparr>last_hop_time_ms := 7200000\<rparr>)
       = (False, s5_hopper\<lparr>last_hop_time_ms := 7200000\<rparr>)
   \<and> update 7200003 (s5_hopper\<lparr>last_hop_time_ms := 7200000\<rparr>)
       = (True, s5_hopper\<lparr>current_channel := CHANNEL_3, last_hop_time_ms := 7200003\<rparr>)
   \<and> \<not> enabled ChannelHopper_new
   \<and> update 3 ChannelHopper_new = (False, ChannelHopper_new)"
proof -
  have h3: "update 3 s5_hopper = (True, s5_hopper\<lparr>current_channel := CHANNEL_3, last_hop_time_ms := 3\<rparr>)"
    using update_hops_once_per_call [of s5_hopper 3] by (simp add: s5_hopper_def)
  have h2: "update 2 s5_hopper = (False, s5_hopper)"
    using update_hops_once_per_call [of s5_hopper 2] by (simp add: s5_hopper_def)
  have h6: "update 6 (s5_hopper\<lparr>current_channel := CHANNEL_3, last_hop_time_ms := 3\<rparr>)
       = (True, s5_hopper\<lparr>current_channel := CHANNEL_1, last_hop_time_ms := 6\<rparr>)"
    using update_hops_once_per_call [of "s5_hopper\<lparr>current_channel := CHANNEL_3, last_hop_time_ms := 3\<rparr>" 6]
    by (simp add: s5_hopper_def)
  have h9: "update 9 (s5_hopper\<lparr>current_channel := CHANNEL_1, last_hop_time_ms := 6\<rparr>)
       = (True, s5_hopper\<lparr>current_channel := CHANNEL_2, last_hop_time_ms := 9\<rparr>)"
    using update_hops_once_per_call [of "s5_hopper\<lparr>current_channel := CHANNEL_1, last_hop_time_ms := 6\<rparr>" 9]
    by (simp add: s5_hopper_def)
  have l2: "update 7200002 (s5_hopper\<lparr>last_hop_time_ms := 7200000\<rparr>)
       = (False, s5_hopper\<lparr>last_hop_time_ms := 7200000\<rparr>)"
    using update_hops_once_per_call [of "s5_hopper\<lparr>last_hop_time_ms := 7200000\<rparr>" 7200002]
    by (simp add: s5_hopper_def)
  have l3: "update 7200003 (s5_hopper\<lparr>last_hop_time_ms := 7200000\<rparr>)
       = (True, s5_hopper\<lparr>current_channel := CHANNEL_3, last_hop_time_ms := 7200003\<rparr>)"
    using update_hops_once_per_call [of "s5_hopper\<lparr>last_hop_time_ms := 7200000\<rparr>" 7200003]
    by (simp add: s5_hopper_def)
  have d: "\<not> enabled ChannelHopper_new" by (simp add: ChannelHopper_new_def)
  have hd: "update 3 ChannelHopper_new = (False, ChannelHopper_new)"
    using update_hops_once_per_call [of ChannelHopper_new 3] d by simp
  have pre: "enabled s5_hopper" "last_hop_time_ms s5_hopper \<le> 3"
    "1000 * (unat (3 :: u32) - unat (last_hop_time_ms s5_hopper)) < 2 ^ 32"
    by (simp_all add: s5_hopper_def)
  from pre h2 h3 h6 h9 l2 l3 d hd show ?thesis by simp
qed

text \<open>
  C7 as the specification states it fails. Fed the time stamps of S5 as they are, the
  hopper hops at 2699 (the claim: no hop). Read as microseconds on the millisecond clock,
  2700 microseconds are 2 ms, where it does not hop (the claim: hop to channel 3). And a
  first call after three dwell periods, at 9 ms, makes one transition, to channel 3, not
  three (the claim: one per dwell period, so channel 2).
\<close>

theorem hopper_timing_counterexample:
  "update 2699 s5_hopper = (True, s5_hopper\<lparr>current_channel := CHANNEL_3, last_hop_time_ms := 2699\<rparr>)
   \<and> update 2 s5_hopper = (False, s5_hopper)
   \<and> update 9 s5_hopper = (True, s5_hopper\<lparr>current_channel := CHANNEL_3, last_hop_time_ms := 9\<rparr>)"
  by (simp add: update_def s5_hopper_def next_channel_def Let_def)

section \<open>Discovery\<close>

lemma process_discovery_response_found:
  assumes "process_discovery_response now frame rssi_val dm = (True, dm')"
  shows "disc_state dm' = FOUND" and "discovered_count dm' = discovered_count dm + 1"
    and "disc_state dm = DISCOVERING"
  using assms
  by (auto simp add: process_discovery_response_def Let_def split: if_splits)

lemma process_discovery_response_not_discovering:
  "disc_state dm \<noteq> DISCOVERING \<Longrightarrow> process_discovery_response now frame rssi_val dm = (False, dm)"
  by (simp add: process_discovery_response_def)

lemma process_discovery_response_step:
  assumes "(disc_state dm = DISCOVERING \<and> discovered_count dm = 0)
           \<or> (disc_state dm \<noteq> DISCOVERING \<and> discovered_count dm \<le> 1)"
  shows "(disc_state (snd (process_discovery_response now frame rssi_val dm)) = DISCOVERING
            \<and> discovered_count (snd (process_discovery_response now frame rssi_val dm)) = 0)
         \<or> (disc_state (snd (process_discovery_response now frame rssi_val dm)) \<noteq> DISCOVERING
            \<and> discovered_count (snd (process_discovery_response now frame rssi_val dm)) \<le> 1)"
  using assms
  by (auto simp add: process_discovery_response_def Let_def)

lemma ingest_all_invariant:
  assumes "(disc_state dm = DISCOVERING \<and> discovered_count dm = 0)
           \<or> (disc_state dm \<noteq> DISCOVERING \<and> discovered_count dm \<le> 1)"
  shows "discovered_count (ingest_all responses dm) \<le> 1"
  using assms
proof (induction responses arbitrary: dm)
  case Nil
  then show ?case by auto
next
  case (Cons r responses)
  obtain now frame rssi_val where r: "r = (now, frame, rssi_val)" by (cases r) auto
  show ?case
    unfolding r ingest_all.simps
    by (rule Cons.IH) (rule process_discovery_response_step [OF Cons.prems])
qed

text \<open>
  C8 (what the code does). The first response that \<open>process_discovery_response\<close> accepts
  sets the state to \<open>FOUND\<close>, and every later response is refused because the state is no
  longer \<open>DISCOVERING\<close>: whatever responses a session started with \<open>start_discovery\<close> is
  given, the list never holds more than one device.
\<close>

theorem discovery_session_lists_at_most_one:
  "length (discovered_list (ingest_all responses (start_discovery dev_type timeout_ms now dm))) \<le> 1
   \<and> (process_discovery_response t1 frame1 rssi1 dm1 = (True, dm2) \<longrightarrow>
        process_discovery_response t2 frame2 rssi2 dm2 = (False, dm2))"
proof
  have "discovered_count (ingest_all responses (start_discovery dev_type timeout_ms now dm)) \<le> 1"
    by (rule ingest_all_invariant) (simp add: start_discovery_def)
  then show "length (discovered_list (ingest_all responses (start_discovery dev_type timeout_ms now dm))) \<le> 1"
    by (simp add: discovered_list_def)
next
  show "process_discovery_response t1 frame1 rssi1 dm1 = (True, dm2) \<longrightarrow>
        process_discovery_response t2 frame2 rssi2 dm2 = (False, dm2)"
  proof
    assume "process_discovery_response t1 frame1 rssi1 dm1 = (True, dm2)"
    from process_discovery_response_found(1) [OF this]
    show "process_discovery_response t2 frame2 rssi2 dm2 = (False, dm2)"
      by (simp add: process_discovery_response_not_discovering)
  qed
qed

lemma discovery_first_s8:
  "process_discovery_response 10 s2_frame 0 (start_discovery 0xFF 10000 0 DiscoveryManager_new)
   = (True, (start_discovery 0xFF 10000 0 DiscoveryManager_new)
              \<lparr>discovered_devices :=
                 (discovered_devices DiscoveryManager_new)
                   [0 := \<lparr> node_id = [0xAB, 0xCD, 0xEF], device_type = 0x32, manufacturer = 0,
                            protocol_version = 0, rssi = 0, timestamp_ms = 10 \<rparr>],
               discovered_count := 1, disc_state := FOUND\<rparr>)"
  by (simp add: process_discovery_response_def start_discovery_def DiscoveryManager_new_def
      MAX_DISCOVERED_DEVICES_def s2_frame_def NODE_ID_SIZE_def Let_def)

lemma discovery_list_s8:
  "map node_id (discovered_list (snd (process_discovery_response 10 s2_frame 0
                      (start_discovery 0xFF 10000 0 DiscoveryManager_new))))
   = [[0xAB, 0xCD, 0xEF]]"
  by code_simp

text \<open>
  The theorem at a session with two responses from the distinct, previously unseen sources
  AB CD EF and 01 02 03: the first is listed, the second is refused, and the list holds the
  one device AB CD EF.
\<close>

theorem discovery_session_lists_at_most_one_witness:
  "fst (process_discovery_response 10 s2_frame 0 (start_discovery 0xFF 10000 0 DiscoveryManager_new))
   \<and> \<not> fst (process_discovery_response 20 s8_frame 0
              (snd (process_discovery_response 10 s2_frame 0
                      (start_discovery 0xFF 10000 0 DiscoveryManager_new))))
   \<and> src_node s2_frame \<noteq> src_node s8_frame
   \<and> map node_id (discovered_list
        (ingest_all [(10, s2_frame, 0), (20, s8_frame, 0)]
           (start_discovery 0xFF 10000 0 DiscoveryManager_new)))
       = [[0xAB, 0xCD, 0xEF]]"
proof -
  define dm2 where "dm2 = snd (process_discovery_response 10 s2_frame 0
                      (start_discovery 0xFF 10000 0 DiscoveryManager_new))"
  have first: "process_discovery_response 10 s2_frame 0
      (start_discovery 0xFF 10000 0 DiscoveryManager_new) = (True, dm2)"
    by (simp add: dm2_def discovery_first_s8)
  from discovery_session_lists_at_most_one [of _ _ _ _ _ 10 s2_frame 0
      "start_discovery 0xFF 10000 0 DiscoveryManager_new" dm2 20 s8_frame 0] first
  have second: "process_discovery_response 20 s8_frame 0 dm2 = (False, dm2)"
    by blast
  have lst: "map node_id (discovered_list dm2) = [[0xAB, 0xCD, 0xEF]]"
    unfolding dm2_def by (rule discovery_list_s8)
  have ne: "src_node s2_frame \<noteq> src_node s8_frame"
    by (simp add: s2_frame_def s8_frame_def)
  have "ingest_all [(10, s2_frame, 0), (20, s8_frame, 0)]
           (start_discovery 0xFF 10000 0 DiscoveryManager_new) = dm2"
    by (simp add: first second)
  with first second lst ne show ?thesis by (simp add: dm2_def [symmetric])
qed


end
